theory Spec2Isabelle
  imports Complex_Main "HOL-Library.Sublist"
begin

section \<open>Data model\<close>

text \<open>
  The three.js objects the hooks touch. An \<open>Euler\<close> is its three angles (the rotation
  order is never changed by the hooks), a \<open>Vector3\<close> its three components and a
  \<open>Quaternion\<close> its four. Numbers are JavaScript doubles in the source; the model
  computes over the reals.
\<close>

record euler =
  euler_x :: real
  euler_y :: real
  euler_z :: real

record vector3 =
  vec_x :: real
  vec_y :: real
  vec_z :: real

record quaternion =
  quat_x :: real
  quat_y :: real
  quat_z :: real
  quat_w :: real

text \<open>A MediaPipe \<open>NormalizedLandmark\<close>: \<open>z\<close> is optional in the source's type.\<close>

record landmark =
  lm_x :: real
  lm_y :: real
  lm_z :: "real option"

text \<open>
  \<open>Results | null\<close> with the optional field \<open>poseLandmarks\<close>; the guard
  \<^verbatim>\<open>!landmarks?.poseLandmarks\<close> is true for \<open>null\<close> and for a missing field.
\<close>

datatype results = Results (poseLandmarks: "landmark list option")

text \<open>
  A bone of the scene graph. Bones are objects: the hooks keep references to them and
  write their rotation in place, so the model keeps a store from bone identity (a
  natural number) to the bone's current fields.
\<close>

record bone =
  bone_name :: string
  bone_rotation :: euler

type_synonym bone_id = nat

text \<open>
  The descendants of the model \<open>Group\<close> in the order \<^verbatim>\<open>model.traverse\<close> visits them.
  Only a \<open>SkinnedMesh\<close> with a skeleton matters; its skeleton is the list of its bones.
\<close>

datatype object3d = SkinnedMesh "bone_id list option" | OtherObject

type_synonym group = "object3d list"

record arm_bones =
  upperarm_l :: "bone_id list"
  upperarm_r :: "bone_id list"
  lowerarm_l :: "bone_id list"
  lowerarm_r :: "bone_id list"

text \<open>
  The state one hook instance works on: the bone store and the model's own transform
  (both owned by the scene graph and mutated in place), and the hook's refs.
\<close>

record rig_state =
  bones :: "bone_id \<Rightarrow> bone"
  model_position :: vector3
  model_scale :: vector3
  model_rotation :: euler
  armBonesRef :: "arm_bones option"
  restRotationsRef :: "string \<rightharpoonup> euler"
  smoothRotations :: "string \<rightharpoonup> euler"
  initializedRef :: bool
  frameRef :: nat

text \<open>The values read from the debug store (\<open>DebugValues\<close>) by the calibrated hook.\<close>

record debug_values =
  leftUpperArmX :: real
  leftUpperArmY :: real
  leftUpperArmZ :: real
  leftLowerArmX :: real
  leftLowerArmY :: real
  leftLowerArmZ :: real
  rightUpperArmX :: real
  rightUpperArmY :: real
  rightUpperArmZ :: real
  rightLowerArmX :: real
  rightLowerArmY :: real
  rightLowerArmZ :: real
  smoothingFactor :: real
  enableTracking :: bool
  useManualRotations :: bool

text \<open>
  An effect either runs to its end or stops at a \<open>TypeError\<close> (a property read on
  \<open>undefined\<close>, when the landmark array is too short); in both cases the writes made
  so far stay, so both carry the state.
\<close>

datatype 'a outcome = Done 'a | Threw 'a

fun outcome_state :: "'a outcome \<Rightarrow> 'a" where
  "outcome_state (Done s) = s"
| "outcome_state (Threw s) = s"

text \<open>\<^verbatim>\<open>pose[i]\<close>: \<open>undefined\<close> beyond the end of the array.\<close>

definition at_index :: "'a list \<Rightarrow> nat \<Rightarrow> 'a option" where
  "at_index xs i = (if i < length xs then Some (xs ! i) else None)"

text \<open>\<open>MP_LANDMARKS\<close>, the entries the hooks use.\<close>

definition LEFT_SHOULDER :: nat where "LEFT_SHOULDER = 11"
definition RIGHT_SHOULDER :: nat where "RIGHT_SHOULDER = 12"
definition LEFT_ELBOW :: nat where "LEFT_ELBOW = 13"
definition RIGHT_ELBOW :: nat where "RIGHT_ELBOW = 14"
definition LEFT_WRIST :: nat where "LEFT_WRIST = 15"
definition RIGHT_WRIST :: nat where "RIGHT_WRIST = 16"
definition LEFT_HIP :: nat where "LEFT_HIP = 23"
definition RIGHT_HIP :: nat where "RIGHT_HIP = 24"

section \<open>Bone names\<close>

text \<open>
  \<^verbatim>\<open>String.prototype.toLowerCase\<close> and \<^verbatim>\<open>String.prototype.includes\<close> (named
  \<open>includesStr\<close> here, as \<open>includes\<close> is a keyword of Isabelle). Bone names are
  modelled as byte strings: the letters \<open>A\<close> to \<open>Z\<close> are lowered, every other byte is
  kept.
\<close>

definition toLowerCase_char :: "char \<Rightarrow> char" where
  "toLowerCase_char c =
     (case map_of (zip ''ABCDEFGHIJKLMNOPQRSTUVWXYZ'' ''abcdefghijklmnopqrstuvwxyz'') c of
        Some d \<Rightarrow> d
      | None \<Rightarrow> c)"

definition toLowerCase :: "string \<Rightarrow> string" where
  "toLowerCase s = map toLowerCase_char s"

fun includesStr :: "string \<Rightarrow> string \<Rightarrow> bool" where
  "includesStr [] p = (p = [])"
| "includesStr (c # s) p = (prefix p (c # s) \<or> includesStr s p)"

text \<open>
  The four tests of the initialisation effect, on the lowered name. The upper-arm tests
  reject eight markers, the lower-arm tests six.
\<close>

definition matches_upperarm :: "string \<Rightarrow> string \<Rightarrow> bool" where
  "matches_upperarm pat name \<longleftrightarrow>
     includesStr name pat \<and>
     \<not> includesStr name ''twist'' \<and>
     \<not> includesStr name ''corrective'' \<and>
     \<not> includesStr name ''_in'' \<and>
     \<not> includesStr name ''_out'' \<and>
     \<not> includesStr name ''_fwd'' \<and>
     \<not> includesStr name ''_bck'' \<and>
     \<not> includesStr name ''bicep'' \<and>
     \<not> includesStr name ''tricep''"

definition matches_lowerarm :: "string \<Rightarrow> string \<Rightarrow> bool" where
  "matches_lowerarm pat name \<longleftrightarrow>
     includesStr name pat \<and>
     \<not> includesStr name ''twist'' \<and>
     \<not> includesStr name ''corrective'' \<and>
     \<not> includesStr name ''_in'' \<and>
     \<not> includesStr name ''_out'' \<and>
     \<not> includesStr name ''_fwd'' \<and>
     \<not> includesStr name ''_bck''"

section \<open>Binding and rest-pose capture (the initialisation effect)\<close>

text \<open>
  The first \<^verbatim>\<open>useEffect\<close> of \<open>useBodyModelRigging\<close>, the same in
  \<^verbatim>\<open>src/hooks/useBodyModelRigging.ts\<close> and in the calibrated variant. The traversal
  visits every skinned mesh and every bone of its skeleton, in order; each of the four
  lists receives the bones that pass its test, in that order. Then the rotation of
  every bound bone is stored under the bone's \<^emph>\<open>name\<close>
  (\<^verbatim>\<open>restRotationsRef.current.set(bone.name, bone.rotation.clone())\<close>); the map is the
  ref's own and is not cleared.
\<close>

fun skeleton_bones :: "object3d \<Rightarrow> bone_id list" where
  "skeleton_bones (SkinnedMesh (Some bs)) = bs"
| "skeleton_bones (SkinnedMesh None) = []"
| "skeleton_bones OtherObject = []"

definition traversed_bones :: "group \<Rightarrow> bone_id list" where
  "traversed_bones model = concat (map skeleton_bones model)"

definition lowered_name :: "rig_state \<Rightarrow> bone_id \<Rightarrow> string" where
  "lowered_name st b = toLowerCase (bone_name (bones st b))"

definition find_arm_bones :: "rig_state \<Rightarrow> group \<Rightarrow> arm_bones" where
  "find_arm_bones st model =
     \<lparr> upperarm_l = filter (\<lambda>b. matches_upperarm ''upperarm_l'' (lowered_name st b)) (traversed_bones model),
       upperarm_r = filter (\<lambda>b. matches_upperarm ''upperarm_r'' (lowered_name st b)) (traversed_bones model),
       lowerarm_l = filter (\<lambda>b. matches_lowerarm ''lowerarm_l'' (lowered_name st b)) (traversed_bones model),
       lowerarm_r = filter (\<lambda>b. matches_lowerarm ''lowerarm_r'' (lowered_name st b)) (traversed_bones model) \<rparr>"

definition allBones :: "arm_bones \<Rightarrow> bone_id list" where
  "allBones ab = upperarm_l ab @ upperarm_r ab @ lowerarm_l ab @ lowerarm_r ab"

fun capture_rest :: "(bone_id \<Rightarrow> bone) \<Rightarrow> (string \<rightharpoonup> euler) \<Rightarrow> bone_id list \<Rightarrow> (string \<rightharpoonup> euler)" where
  "capture_rest bs m [] = m"
| "capture_rest bs m (b # rest) =
     capture_rest bs (m(bone_name (bs b) \<mapsto> bone_rotation (bs b))) rest"

definition initEffect :: "group option \<Rightarrow> rig_state \<Rightarrow> rig_state" where
  "initEffect model st =
     (case model of
        None \<Rightarrow> st
      | Some g \<Rightarrow>
          let ab = find_arm_bones st g in
          st\<lparr> armBonesRef := Some ab,
              restRotationsRef := capture_rest (bones st) (restRotationsRef st) (allBones ab),
              initializedRef := True,
              frameRef := 0 \<rparr>)"

section \<open>Temporal smoothing (single-pole filter)\<close>

text \<open>
  Both body-rigging hooks smooth every axis of a joint's rotation with the statement
  \<^verbatim>\<open>smooth.x += (x - smooth.x) * SMOOTH\<close>.
\<close>

definition smoothAxis :: "real \<Rightarrow> real \<Rightarrow> real \<Rightarrow> real" where
  "smoothAxis SMOOTH target s = s + (target - s) * SMOOTH"

text \<open>
  The value kept for a key after one call of the appliers: the target itself when the
  key has no entry yet (\<^verbatim>\<open>smooth = new Euler(x, y, z)\<close>), the filtered value on every
  axis otherwise.
\<close>

definition smoothed :: "real \<Rightarrow> euler option \<Rightarrow> real \<Rightarrow> real \<Rightarrow> real \<Rightarrow> euler" where
  "smoothed SMOOTH prev x y z =
     (case prev of
        None \<Rightarrow> \<lparr> euler_x = x, euler_y = y, euler_z = z \<rparr>
      | Some s \<Rightarrow>
          \<lparr> euler_x = smoothAxis SMOOTH x (euler_x s),
            euler_y = smoothAxis SMOOTH y (euler_y s),
            euler_z = smoothAxis SMOOTH z (euler_z s) \<rparr>)"

section \<open>Multi-armature application\<close>

text \<open>
  \<^verbatim>\<open>bones.forEach(bone => ...)\<close>: one write per entry of the list, in order, on the
  bone store. \<^verbatim>\<open>updateMatrix\<close> and \<^verbatim>\<open>updateMatrixWorld\<close> recompute matrices from
  the rotation and are not modelled.
\<close>

fun write_bones :: "(bone \<Rightarrow> bone) \<Rightarrow> bone_id list \<Rightarrow> (bone_id \<Rightarrow> bone) \<Rightarrow> (bone_id \<Rightarrow> bone)" where
  "write_bones w [] bs = bs"
| "write_bones w (b # rest) bs = write_bones w rest (bs(b := w (bs b)))"

text \<open>
  \<open>applyRotationToAll\<close> of \<^verbatim>\<open>src/hooks/useBodyModelRigging.ts\<close>: X and Y are added to
  the rest value stored under the bone's name (0 when there is none), Z is absolute.
\<close>

definition write_rest_xy :: "(string \<rightharpoonup> euler) \<Rightarrow> euler \<Rightarrow> bone \<Rightarrow> bone" where
  "write_rest_xy rest smooth bn =
     bn\<lparr> bone_rotation :=
           \<lparr> euler_x = (case rest (bone_name bn) of Some r \<Rightarrow> euler_x r | None \<Rightarrow> 0) + euler_x smooth,
             euler_y = (case rest (bone_name bn) of Some r \<Rightarrow> euler_y r | None \<Rightarrow> 0) + euler_y smooth,
             euler_z = euler_z smooth \<rparr> \<rparr>"

definition applyRotationToAll ::
    "real \<Rightarrow> bone_id list \<Rightarrow> string \<Rightarrow> real \<Rightarrow> real \<Rightarrow> real \<Rightarrow> rig_state \<Rightarrow> rig_state" where
  "applyRotationToAll SMOOTH bns key x y z st =
     (if bns = [] then st
      else
        let smooth = smoothed SMOOTH (smoothRotations st key) x y z in
        st\<lparr> smoothRotations := (smoothRotations st)(key \<mapsto> smooth),
            bones := write_bones (write_rest_xy (restRotationsRef st) smooth) bns (bones st) \<rparr>)"

text \<open>
  \<open>applyArmRotation\<close> of the calibrated variant: all three axes are added to the rest
  value stored under the bone's name; a bone with no rest entry is left as it is.
\<close>

definition write_rest_xyz :: "(string \<rightharpoonup> euler) \<Rightarrow> euler \<Rightarrow> bone \<Rightarrow> bone" where
  "write_rest_xyz rest smooth bn =
     (case rest (bone_name bn) of
        Some r \<Rightarrow>
          bn\<lparr> bone_rotation :=
                \<lparr> euler_x = euler_x r + euler_x smooth,
                  euler_y = euler_y r + euler_y smooth,
                  euler_z = euler_z r + euler_z smooth \<rparr> \<rparr>
      | None \<Rightarrow> bn)"

definition applyArmRotation ::
    "real \<Rightarrow> bone_id list \<Rightarrow> string \<Rightarrow> real \<Rightarrow> real \<Rightarrow> real \<Rightarrow> rig_state \<Rightarrow> rig_state" where
  "applyArmRotation SMOOTH bns key xDelta yDelta zDelta st =
     (if bns = [] then st
      else
        let smooth = smoothed SMOOTH (smoothRotations st key) xDelta yDelta zDelta in
        st\<lparr> smoothRotations := (smoothRotations st)(key \<mapsto> smooth),
            bones := write_bones (write_rest_xyz (restRotationsRef st) smooth) bns (bones st) \<rparr>)"

section \<open>Landmark measures\<close>

text \<open>
  \<^verbatim>\<open>Math.atan2(y, x)\<close> over the reals (the sign of a zero is not modelled; every
  call in the hooks passes \<open>x \<ge> 0\<close>).
\<close>

definition atan2 :: "real \<Rightarrow> real \<Rightarrow> real" where
  "atan2 y x =
     (if 0 < x then arctan (y / x)
      else if x < 0 then (if 0 \<le> y then arctan (y / x) + pi else arctan (y / x) - pi)
      else if 0 < y then pi / 2
      else if y < 0 then - (pi / 2)
      else 0)"

definition DEG2RAD :: real where
  "DEG2RAD = pi / 180"

definition Y_ROTATION_ARMS_DOWN :: real where
  "Y_ROTATION_ARMS_DOWN = 13"

definition Y_ROTATION_T_POSE :: real where
  "Y_ROTATION_T_POSE = - 48"

definition calcArmRatio :: "landmark \<Rightarrow> landmark \<Rightarrow> real" where
  "calcArmRatio shoulder elbow =
     (let dx = \<bar>lm_x elbow - lm_x shoulder\<bar>;
          dy = - (lm_y elbow - lm_y shoulder);
          angle = atan2 dy dx;
          ratio = (angle + pi / 2) / (pi / 2)
      in max 0 (min 1 ratio))"

definition mapToYRotation :: "real \<Rightarrow> real" where
  "mapToYRotation ratio =
     (let yDegrees = Y_ROTATION_ARMS_DOWN + (Y_ROTATION_T_POSE - Y_ROTATION_ARMS_DOWN) * ratio
      in yDegrees * DEG2RAD)"

text \<open>
  \<open>calcVerticalAngle\<close> of \<^verbatim>\<open>src/hooks/useBodyModelRigging.ts\<close>; the forearm blocks
  compute the same expression inline.
\<close>

definition calcVerticalAngle :: "landmark \<Rightarrow> landmark \<Rightarrow> real" where
  "calcVerticalAngle shoulderPos elbowPos =
     (let dy = - (lm_y elbowPos - lm_y shoulderPos);
          dx = \<bar>lm_x elbowPos - lm_x shoulderPos\<bar>
      in atan2 dy dx)"

text \<open>
  A measure of two landmarks read from the array: reading \<open>.x\<close> or \<open>.y\<close> of a
  missing entry throws, which is \<open>None\<close> here.
\<close>

definition of_landmarks :: "(landmark \<Rightarrow> landmark \<Rightarrow> 'a) \<Rightarrow> landmark option \<Rightarrow> landmark option \<Rightarrow> 'a option" where
  "of_landmarks f a b =
     (case a of
        None \<Rightarrow> None
      | Some la \<Rightarrow> (case b of None \<Rightarrow> None | Some lb \<Rightarrow> Some (f la lb)))"

definition pose_of :: "results option \<Rightarrow> landmark list option" where
  "pose_of landmarks = (case landmarks of None \<Rightarrow> None | Some r \<Rightarrow> poseLandmarks r)"

section \<open>The per-frame effect of \<^verbatim>\<open>src/hooks/useBodyModelRigging.ts\<close>\<close>

definition SMOOTH_default :: real where
  "SMOOTH_default = 35 / 100"

definition z_or_0 :: "landmark \<Rightarrow> real" where
  "z_or_0 l = (case lm_z l of Some z \<Rightarrow> z | None \<Rightarrow> 0)"

definition mirror_sign :: "bool \<Rightarrow> real" where
  "mirror_sign mirrored = (if mirrored then - 1 else 1)"

definition setScalar :: "real \<Rightarrow> vector3" where
  "setScalar v = \<lparr> vec_x = v, vec_y = v, vec_z = v \<rparr>"

definition shoulderWidth :: "landmark \<Rightarrow> landmark \<Rightarrow> real" where
  "shoulderWidth leftShoulder rightShoulder =
     sqrt ((lm_x leftShoulder - lm_x rightShoulder) ^ 2 + (lm_y leftShoulder - lm_y rightShoulder) ^ 2)"

definition getRestZ :: "rig_state \<Rightarrow> bone_id list \<Rightarrow> real" where
  "getRestZ st bns =
     (case bns of
        [] \<Rightarrow> 0
      | b # _ \<Rightarrow>
          (case restRotationsRef st (bone_name (bones st b)) of
             Some r \<Rightarrow> euler_z r
           | None \<Rightarrow> 0))"

text \<open>Position from the hip centre, scale from the shoulder width, turn from the depths.\<close>

definition place_by_hips :: "bool \<Rightarrow> landmark \<Rightarrow> landmark \<Rightarrow> landmark \<Rightarrow> landmark \<Rightarrow> rig_state \<Rightarrow> rig_state" where
  "place_by_hips mirrored leftShoulder rightShoulder leftHip rightHip st =
     (let m = mirror_sign mirrored;
          hipX = ((lm_x leftHip + lm_x rightHip) / 2 - 5 / 10) * m;
          hipY = - ((lm_y leftHip + lm_y rightHip) / 2 - 5 / 10);
          w = shoulderWidth leftShoulder rightShoulder;
          depthDiff = (z_or_0 leftShoulder - z_or_0 rightShoulder) * m;
          bodyTurn = atan2 depthDiff w * (12 / 10)
      in st\<lparr> model_position := \<lparr> vec_x = hipX * 3, vec_y = hipY * 3 - 4 / 10, vec_z = 0 \<rparr>,
             model_scale := setScalar (w * (55 / 10)),
             model_rotation := (model_rotation st)\<lparr> euler_y := bodyTurn \<rparr> \<rparr>)"

text \<open>
  The four arm blocks, in the source's order: left upper, left lower, right upper,
  right lower. A block whose landmarks are missing throws before its write.
\<close>

definition arms_by_angle :: "bool \<Rightarrow> arm_bones \<Rightarrow> landmark list \<Rightarrow> rig_state \<Rightarrow> rig_state outcome" where
  "arms_by_angle mirrored ab pose st =
     (let lShoulder = at_index pose (if mirrored then RIGHT_SHOULDER else LEFT_SHOULDER);
          lElbow = at_index pose (if mirrored then RIGHT_ELBOW else LEFT_ELBOW);
          lWrist = at_index pose (if mirrored then RIGHT_WRIST else LEFT_WRIST);
          rShoulder = at_index pose (if mirrored then LEFT_SHOULDER else RIGHT_SHOULDER);
          rElbow = at_index pose (if mirrored then LEFT_ELBOW else RIGHT_ELBOW);
          rWrist = at_index pose (if mirrored then LEFT_WRIST else RIGHT_WRIST);
          restAngle = - (pi / 2)
      in case of_landmarks calcVerticalAngle lShoulder lElbow of
           None \<Rightarrow> Threw st
         | Some verticalAngle \<Rightarrow>
             let st1 = applyRotationToAll SMOOTH_default (upperarm_l ab) ''upperarm_l'' 0 0
                         (getRestZ st (upperarm_l ab) + (verticalAngle - restAngle)) st
             in case of_landmarks calcVerticalAngle lElbow lWrist of
                  None \<Rightarrow> Threw st1
                | Some forearmAngle \<Rightarrow>
                    let st2 = applyRotationToAll SMOOTH_default (lowerarm_l ab) ''lowerarm_l'' 0 0
                                (getRestZ st1 (lowerarm_l ab) + (forearmAngle - restAngle) * (7 / 10)) st1
                    in case of_landmarks calcVerticalAngle rShoulder rElbow of
                         None \<Rightarrow> Threw st2
                       | Some verticalAngleR \<Rightarrow>
                           let st3 = applyRotationToAll SMOOTH_default (upperarm_r ab) ''upperarm_r'' 0 0
                                       (getRestZ st2 (upperarm_r ab) - (verticalAngleR - restAngle)) st2
                           in case of_landmarks calcVerticalAngle rElbow rWrist of
                                None \<Rightarrow> Threw st3
                              | Some forearmAngleR \<Rightarrow>
                                  Done (applyRotationToAll SMOOTH_default (lowerarm_r ab) ''lowerarm_r'' 0 0
                                          (getRestZ st3 (lowerarm_r ab) - (forearmAngleR - restAngle) * (7 / 10)) st3))"

definition poseUpdate :: "bool \<Rightarrow> arm_bones \<Rightarrow> landmark list \<Rightarrow> rig_state \<Rightarrow> rig_state outcome" where
  "poseUpdate mirrored ab pose st =
     (let st1 = st\<lparr> frameRef := frameRef st + 1 \<rparr>
      in case of_landmarks Pair (at_index pose LEFT_HIP) (at_index pose RIGHT_HIP) of
           None \<Rightarrow> Threw st1
         | Some (leftHip, rightHip) \<Rightarrow>
             (case of_landmarks Pair (at_index pose LEFT_SHOULDER) (at_index pose RIGHT_SHOULDER) of
                None \<Rightarrow> Threw st1
              | Some (leftShoulder, rightShoulder) \<Rightarrow>
                  arms_by_angle mirrored ab pose
                    (place_by_hips mirrored leftShoulder rightShoulder leftHip rightHip st1)))"

definition frameEffect :: "group option \<Rightarrow> results option \<Rightarrow> bool \<Rightarrow> rig_state \<Rightarrow> rig_state outcome" where
  "frameEffect model landmarks mirrored st =
     (case model of
        None \<Rightarrow> Done st
      | Some g \<Rightarrow>
          (case pose_of landmarks of
             None \<Rightarrow> Done st
           | Some pose \<Rightarrow>
               if \<not> initializedRef st then Done st
               else (case armBonesRef st of
                       None \<Rightarrow> Done st
                     | Some ab \<Rightarrow> poseUpdate mirrored ab pose st)))"

section \<open>The per-frame effect of the calibrated variant\<close>

text \<open>
  The variant of \<open>useBodyModelRigging\<close> that reads the debug store, maps the arm ratio
  to a Y rotation between two calibrated angles, and clamps the model's position and
  scale.
\<close>

definition MIN_X :: real where "MIN_X = - (6 / 10)"
definition MAX_X :: real where "MAX_X = 6 / 10"
definition MIN_Y :: real where "MIN_Y = - 7"
definition MAX_Y :: real where "MAX_Y = 9 / 10"
definition MIN_SCALE :: real where "MIN_SCALE = 6 / 10"
definition MAX_SCALE :: real where "MAX_SCALE = 18 / 10"

definition manualMode :: "debug_values \<Rightarrow> arm_bones \<Rightarrow> rig_state \<Rightarrow> rig_state" where
  "manualMode dv ab st =
     (let SMOOTH = smoothingFactor dv;
          st1 = applyArmRotation SMOOTH (upperarm_l ab) ''upperarm_l''
                  (leftUpperArmX dv * DEG2RAD) (leftUpperArmY dv * DEG2RAD) (leftUpperArmZ dv * DEG2RAD) st;
          st2 = applyArmRotation SMOOTH (lowerarm_l ab) ''lowerarm_l''
                  (leftLowerArmX dv * DEG2RAD) (leftLowerArmY dv * DEG2RAD) (leftLowerArmZ dv * DEG2RAD) st1;
          st3 = applyArmRotation SMOOTH (upperarm_r ab) ''upperarm_r''
                  (rightUpperArmX dv * DEG2RAD) (rightUpperArmY dv * DEG2RAD) (rightUpperArmZ dv * DEG2RAD) st2;
          st4 = applyArmRotation SMOOTH (lowerarm_r ab) ''lowerarm_r''
                  (rightLowerArmX dv * DEG2RAD) (rightLowerArmY dv * DEG2RAD) (rightLowerArmZ dv * DEG2RAD) st3
      in st4\<lparr> model_rotation := (model_rotation st4)\<lparr> euler_y := 0 \<rparr> \<rparr>)"

text \<open>Position from the shoulder centre, both clamped; scale clamped; no body turn.\<close>

definition place_by_shoulders :: "bool \<Rightarrow> landmark \<Rightarrow> landmark \<Rightarrow> rig_state \<Rightarrow> rig_state" where
  "place_by_shoulders mirrored leftShoulder rightShoulder st =
     (let m = mirror_sign mirrored;
          w = shoulderWidth leftShoulder rightShoulder;
          shoulderCenterX = ((lm_x leftShoulder + lm_x rightShoulder) / 2 - 5 / 10) * m;
          shoulderCenterY = - ((lm_y leftShoulder + lm_y rightShoulder) / 2 - 5 / 10);
          rawX = shoulderCenterX * 2;
          rawY = shoulderCenterY * 2 - 25 / 10;
          rawScale = w * 8;
          clampedX = max MIN_X (min MAX_X rawX);
          clampedY = max MIN_Y (min MAX_Y rawY);
          clampedScale = max MIN_SCALE (min MAX_SCALE rawScale)
      in st\<lparr> model_position := \<lparr> vec_x = clampedX, vec_y = clampedY, vec_z = 0 \<rparr>,
             model_scale := setScalar clampedScale,
             model_rotation := (model_rotation st)\<lparr> euler_y := 0 \<rparr> \<rparr>)"

text \<open>
  The arm writes of tracking mode, in the source's order: left upper, right upper,
  left lower, right lower (manual mode writes left upper, left lower, right upper,
  right lower).
\<close>

definition arms_by_ratio :: "bool \<Rightarrow> real \<Rightarrow> arm_bones \<Rightarrow> landmark list \<Rightarrow> rig_state \<Rightarrow> rig_state outcome" where
  "arms_by_ratio mirrored SMOOTH ab pose st =
     (let lShoulder = at_index pose (if mirrored then RIGHT_SHOULDER else LEFT_SHOULDER);
          lElbow = at_index pose (if mirrored then RIGHT_ELBOW else LEFT_ELBOW);
          rShoulder = at_index pose (if mirrored then LEFT_SHOULDER else RIGHT_SHOULDER);
          rElbow = at_index pose (if mirrored then LEFT_ELBOW else RIGHT_ELBOW)
      in case of_landmarks calcArmRatio lShoulder lElbow of
           None \<Rightarrow> Threw st
         | Some ratio \<Rightarrow>
             let st1 = applyArmRotation SMOOTH (upperarm_l ab) ''upperarm_l'' 0 (mapToYRotation ratio) 0 st
             in case of_landmarks calcArmRatio rShoulder rElbow of
                  None \<Rightarrow> Threw st1
                | Some ratioR \<Rightarrow>
                    let st2 = applyArmRotation SMOOTH (upperarm_r ab) ''upperarm_r'' 0 (mapToYRotation ratioR) 0 st1;
                        st3 = applyArmRotation SMOOTH (lowerarm_l ab) ''lowerarm_l'' 0 0 0 st2
                    in Done (applyArmRotation SMOOTH (lowerarm_r ab) ''lowerarm_r'' 0 0 0 st3))"

definition trackingMode :: "bool \<Rightarrow> real \<Rightarrow> arm_bones \<Rightarrow> landmark list \<Rightarrow> rig_state \<Rightarrow> rig_state outcome" where
  "trackingMode mirrored SMOOTH ab pose st =
     (let st1 = st\<lparr> frameRef := frameRef st + 1 \<rparr>
      in case of_landmarks Pair (at_index pose LEFT_SHOULDER) (at_index pose RIGHT_SHOULDER) of
           None \<Rightarrow> Threw st1
         | Some (leftShoulder, rightShoulder) \<Rightarrow>
             arms_by_ratio mirrored SMOOTH ab pose
               (place_by_shoulders mirrored leftShoulder rightShoulder st1))"

definition frameEffect_calibrated ::
    "group option \<Rightarrow> results option \<Rightarrow> bool \<Rightarrow> debug_values \<Rightarrow> rig_state \<Rightarrow> rig_state outcome" where
  "frameEffect_calibrated model landmarks mirrored dv st =
     (case model of
        None \<Rightarrow> Done st
      | Some g \<Rightarrow>
          if \<not> initializedRef st then Done st
          else (case armBonesRef st of
                  None \<Rightarrow> Done st
                | Some ab \<Rightarrow>
                    if \<not> enableTracking dv \<and> \<not> useManualRotations dv then Done st
                    else if useManualRotations dv then Done (manualMode dv ab st)
                    else (case pose_of landmarks of
                            None \<Rightarrow> Done st
                          | Some pose \<Rightarrow> trackingMode mirrored (smoothingFactor dv) ab pose st)))"

section \<open>Direction-vector matching\<close>

text \<open>
  The methods of three.js's \<open>Vector3\<close> and \<open>Quaternion\<close> that the two functions
  call, as the library defines them: \<^verbatim>\<open>normalize()\<close> is
  \<^verbatim>\<open>divideScalar(this.length() || 1)\<close>, so the zero vector stays the zero vector
  (over the reals every other vector gets length 1; in doubles a squared length that
  overflows or underflows does not);
  \<^verbatim>\<open>setFromAxisAngle(axis, angle)\<close> stores \<open>axis * sin (angle / 2)\<close> and
  \<open>cos (angle / 2)\<close> and assumes a normalised axis.
\<close>

definition vec :: "real \<Rightarrow> real \<Rightarrow> real \<Rightarrow> vector3" where
  "vec a b c = \<lparr> vec_x = a, vec_y = b, vec_z = c \<rparr>"

definition lengthSq :: "vector3 \<Rightarrow> real" where
  "lengthSq v = vec_x v * vec_x v + vec_y v * vec_y v + vec_z v * vec_z v"

definition vec_length :: "vector3 \<Rightarrow> real" where
  "vec_length v = sqrt (lengthSq v)"

definition normalize :: "vector3 \<Rightarrow> vector3" where
  "normalize v =
     (let l = vec_length v;
          d = (if l = 0 then 1 else l)
      in vec (vec_x v / d) (vec_y v / d) (vec_z v / d))"

definition dot :: "vector3 \<Rightarrow> vector3 \<Rightarrow> real" where
  "dot a b = vec_x a * vec_x b + vec_y a * vec_y b + vec_z a * vec_z b"

definition crossVectors :: "vector3 \<Rightarrow> vector3 \<Rightarrow> vector3" where
  "crossVectors a b =
     vec (vec_y a * vec_z b - vec_z a * vec_y b)
         (vec_z a * vec_x b - vec_x a * vec_z b)
         (vec_x a * vec_y b - vec_y a * vec_x b)"

definition identity_quaternion :: quaternion where
  "identity_quaternion = \<lparr> quat_x = 0, quat_y = 0, quat_z = 0, quat_w = 1 \<rparr>"

definition setFromAxisAngle :: "vector3 \<Rightarrow> real \<Rightarrow> quaternion" where
  "setFromAxisAngle axis angle =
     (let halfAngle = angle / 2;
          s = sin halfAngle
      in \<lparr> quat_x = vec_x axis * s, quat_y = vec_y axis * s, quat_z = vec_z axis * s,
           quat_w = cos halfAngle \<rparr>)"

text \<open>The squared norm of a quaternion; a rotation quaternion has norm 1.\<close>

definition quat_lengthSq :: "quaternion \<Rightarrow> real" where
  "quat_lengthSq q = quat_x q * quat_x q + quat_y q * quat_y q + quat_z q * quat_z q + quat_w q * quat_w q"

text \<open>\<open>quaternionFromDirections\<close> (\<^verbatim>\<open>utils/boneMapping\<close>).\<close>

definition quaternionFromDirections :: "vector3 \<Rightarrow> vector3 \<Rightarrow> quaternion" where
  "quaternionFromDirections from to =
     (let f = normalize from;
          t = normalize to;
          d = dot f t
      in if d > 9999 / 10000 then identity_quaternion
         else if d < - (9999 / 10000) then
           (let perp = (if \<bar>vec_x f\<bar> < 9 / 10 then vec 1 0 0 else vec 0 1 0);
                axis = normalize (crossVectors f perp)
            in setFromAxisAngle axis pi)
         else
           (let axis = normalize (crossVectors f t);
                angle = arccos (max (- 1) (min 1 d))
            in setFromAxisAngle axis angle))"

text \<open>\<open>getRotationBetweenVectors\<close> (\<^verbatim>\<open>utils/poseRetargeting\<close>).\<close>

definition getRotationBetweenVectors :: "vector3 \<Rightarrow> vector3 \<Rightarrow> quaternion" where
  "getRotationBetweenVectors from to =
     (let fromNorm = normalize from;
          toNorm = normalize to;
          d = dot fromNorm toNorm
      in if d > 9999 / 10000 then identity_quaternion
         else if d < - (9999 / 10000) then
           (let axis0 = crossVectors (vec 1 0 0) fromNorm;
                axis = (if lengthSq axis0 < 1 / 1000 then crossVectors (vec 0 1 0) fromNorm else axis0)
            in setFromAxisAngle (normalize axis) pi)
         else
           (let axis = normalize (crossVectors fromNorm toNorm);
                angle = arccos (max (- 1) (min 1 d))
            in setFromAxisAngle axis angle))"

section \<open>Single-bone resolution by pattern table\<close>

datatype bone_key =
    Key_hips | Key_spine | Key_spine1 | Key_spine2 | Key_neck | Key_head
  | Key_leftShoulder | Key_leftUpperArm | Key_leftLowerArm | Key_leftHand
  | Key_rightShoulder | Key_rightUpperArm | Key_rightLowerArm | Key_rightHand
  | Key_leftUpperLeg | Key_leftLowerLeg | Key_leftFoot | Key_leftToe
  | Key_rightUpperLeg | Key_rightLowerLeg | Key_rightFoot | Key_rightToe

fun BONE_NAME_PATTERNS :: "bone_key \<Rightarrow> string list" where
  "BONE_NAME_PATTERNS Key_hips = [''pelvis'', ''hips'', ''root'', ''hip'']"
| "BONE_NAME_PATTERNS Key_spine = [''spine_01'', ''spine'', ''spine1'', ''spine.001'']"
| "BONE_NAME_PATTERNS Key_spine1 = [''spine_02'', ''spine_03'', ''spine2'', ''spine.002'', ''chest'']"
| "BONE_NAME_PATTERNS Key_spine2 = [''spine_04'', ''spine_05'', ''spine3'', ''spine.003'', ''upperchest'']"
| "BONE_NAME_PATTERNS Key_neck = [''neck_01'', ''neck_02'', ''neck'']"
| "BONE_NAME_PATTERNS Key_head = [''head'', ''head_01'']"
| "BONE_NAME_PATTERNS Key_leftShoulder = [''clavicle_l'', ''leftshoulder'', ''shoulder_l'', ''l_clavicle'', ''shoulder.l'']"
| "BONE_NAME_PATTERNS Key_leftUpperArm = [''upperarm_l'', ''leftarm'', ''l_upperarm'', ''arm_l'', ''upper_arm.l'', ''upperarm.l'']"
| "BONE_NAME_PATTERNS Key_leftLowerArm = [''lowerarm_l'', ''leftforearm'', ''l_lowerarm'', ''forearm_l'', ''lower_arm.l'', ''lowerarm.l'']"
| "BONE_NAME_PATTERNS Key_leftHand = [''hand_l'', ''lefthand'', ''l_hand'', ''hand.l'']"
| "BONE_NAME_PATTERNS Key_rightShoulder = [''clavicle_r'', ''rightshoulder'', ''shoulder_r'', ''r_clavicle'', ''shoulder.r'']"
| "BONE_NAME_PATTERNS Key_rightUpperArm = [''upperarm_r'', ''rightarm'', ''r_upperarm'', ''arm_r'', ''upper_arm.r'', ''upperarm.r'']"
| "BONE_NAME_PATTERNS Key_rightLowerArm = [''lowerarm_r'', ''rightforearm'', ''r_lowerarm'', ''forearm_r'', ''lower_arm.r'', ''lowerarm.r'']"
| "BONE_NAME_PATTERNS Key_rightHand = [''hand_r'', ''righthand'', ''r_hand'', ''hand.r'']"
| "BONE_NAME_PATTERNS Key_leftUpperLeg = [''thigh_l'', ''leftupleg'', ''l_thigh'', ''upperleg_l'', ''upper_leg.l'', ''thigh.l'']"
| "BONE_NAME_PATTERNS Key_leftLowerLeg = [''calf_l'', ''leftleg'', ''l_calf'', ''lowerleg_l'', ''lower_leg.l'', ''shin.l'']"
| "BONE_NAME_PATTERNS Key_leftFoot = [''foot_l'', ''leftfoot'', ''l_foot'', ''foot.l'']"
| "BONE_NAME_PATTERNS Key_leftToe = [''ball_l'', ''lefttoebase'', ''toe_l'', ''l_toe'', ''toe.l'']"
| "BONE_NAME_PATTERNS Key_rightUpperLeg = [''thigh_r'', ''rightupleg'', ''r_thigh'', ''upperleg_r'', ''upper_leg.r'', ''thigh.r'']"
| "BONE_NAME_PATTERNS Key_rightLowerLeg = [''calf_r'', ''rightleg'', ''r_calf'', ''lowerleg_r'', ''lower_leg.r'', ''shin.r'']"
| "BONE_NAME_PATTERNS Key_rightFoot = [''foot_r'', ''rightfoot'', ''r_foot'', ''foot.r'']"
| "BONE_NAME_PATTERNS Key_rightToe = [''ball_r'', ''righttoebase'', ''toe_r'', ''r_toe'', ''toe.r'']"

text \<open>
  \<open>findBoneByPattern\<close>: for each pattern in order, \<^verbatim>\<open>skeleton.bones.find\<close> returns the
  first bone that passes the test; the first pattern with a hit decides. The first pass
  compares the lowered names for equality; the second tests inclusion and rejects the
  markers \<open>twist\<close>, \<open>corrective\<close>, \<open>_in_\<close>, \<open>_out_\<close>, \<open>_fwd\<close> and \<open>_bck\<close>.
\<close>

fun first_hit :: "(string \<Rightarrow> bone_id \<Rightarrow> bool) \<Rightarrow> bone_id list \<Rightarrow> string list \<Rightarrow> bone_id option" where
  "first_hit test skeleton [] = None"
| "first_hit test skeleton (pattern # patterns) =
     (case List.find (test pattern) skeleton of
        Some b \<Rightarrow> Some b
      | None \<Rightarrow> first_hit test skeleton patterns)"

definition exact_match :: "(bone_id \<Rightarrow> bone) \<Rightarrow> string \<Rightarrow> bone_id \<Rightarrow> bool" where
  "exact_match bs pattern b \<longleftrightarrow> toLowerCase (bone_name (bs b)) = toLowerCase pattern"

definition includes_match :: "(bone_id \<Rightarrow> bone) \<Rightarrow> string \<Rightarrow> bone_id \<Rightarrow> bool" where
  "includes_match bs pattern b \<longleftrightarrow>
     includesStr (toLowerCase (bone_name (bs b))) (toLowerCase pattern) \<and>
     \<not> includesStr (toLowerCase (bone_name (bs b))) ''twist'' \<and>
     \<not> includesStr (toLowerCase (bone_name (bs b))) ''corrective'' \<and>
     \<not> includesStr (toLowerCase (bone_name (bs b))) ''_in_'' \<and>
     \<not> includesStr (toLowerCase (bone_name (bs b))) ''_out_'' \<and>
     \<not> includesStr (toLowerCase (bone_name (bs b))) ''_fwd'' \<and>
     \<not> includesStr (toLowerCase (bone_name (bs b))) ''_bck''"

definition findBoneByPattern :: "(bone_id \<Rightarrow> bone) \<Rightarrow> bone_id list \<Rightarrow> bone_key \<Rightarrow> bone_id option" where
  "findBoneByPattern bs skeleton boneKey =
     (let patterns = BONE_NAME_PATTERNS boneKey
      in case first_hit (exact_match bs) skeleton patterns of
           Some b \<Rightarrow> Some b
         | None \<Rightarrow> first_hit (includes_match bs) skeleton patterns)"

section \<open>Rest poses of the jacket hook\<close>

text \<open>
  The first effect of \<open>useJacketRigging\<close>: the skeleton is the one of the last skinned
  mesh visited; a new map receives the quaternion of each of its bones under the bone's
  name and replaces the ref's map.
\<close>

fun last_skeleton :: "group \<Rightarrow> bone_id list option" where
  "last_skeleton [] = None"
| "last_skeleton (SkinnedMesh (Some bs) # rest) =
     (case last_skeleton rest of Some later \<Rightarrow> Some later | None \<Rightarrow> Some bs)"
| "last_skeleton (_ # rest) = last_skeleton rest"

fun capture_restPoses :: "(bone_id \<Rightarrow> string \<times> quaternion) \<Rightarrow> (string \<rightharpoonup> quaternion) \<Rightarrow> bone_id list \<Rightarrow> (string \<rightharpoonup> quaternion)" where
  "capture_restPoses jb m [] = m"
| "capture_restPoses jb m (b # rest) = capture_restPoses jb (m(fst (jb b) \<mapsto> snd (jb b))) rest"

record jacket_state =
  skeletonRef :: "bone_id list option"
  restPosesRef :: "string \<rightharpoonup> quaternion"

definition jacketInitEffect :: "(bone_id \<Rightarrow> string \<times> quaternion) \<Rightarrow> group option \<Rightarrow> jacket_state \<Rightarrow> jacket_state" where
  "jacketInitEffect jb jacketModel st =
     (case jacketModel of
        None \<Rightarrow> st
      | Some g \<Rightarrow>
          (case last_skeleton g of
             None \<Rightarrow> st
           | Some skeleton \<Rightarrow>
               st\<lparr> skeletonRef := Some skeleton,
                   restPosesRef := capture_restPoses jb Map.empty skeleton \<rparr>))"

section \<open>Example rigs and frames\<close>

text \<open>The refs of a freshly mounted hook, over a given bone store.\<close>

definition zero_euler :: euler where
  "zero_euler = \<lparr> euler_x = 0, euler_y = 0, euler_z = 0 \<rparr>"

definition mount :: "(bone_id \<Rightarrow> bone) \<Rightarrow> rig_state" where
  "mount bs =
     \<lparr> bones = bs,
       model_position = \<lparr> vec_x = 0, vec_y = 0, vec_z = 0 \<rparr>,
       model_scale = \<lparr> vec_x = 1, vec_y = 1, vec_z = 1 \<rparr>,
       model_rotation = zero_euler,
       armBonesRef = None,
       restRotationsRef = Map.empty,
       smoothRotations = Map.empty,
       initializedRef = False,
       frameRef = 0 \<rparr>"

text \<open>\<open>defaultValues\<close> of the debug store, and the same with manual rotations on.\<close>

definition defaultValues :: debug_values where
  "defaultValues =
     \<lparr> leftUpperArmX = 0, leftUpperArmY = 0, leftUpperArmZ = 0,
       leftLowerArmX = 0, leftLowerArmY = 0, leftLowerArmZ = 0,
       rightUpperArmX = 0, rightUpperArmY = 0, rightUpperArmZ = 0,
       rightLowerArmX = 0, rightLowerArmY = 0, rightLowerArmZ = 0,
       smoothingFactor = 35 / 100, enableTracking = True, useManualRotations = False \<rparr>"

definition manual_sliders :: debug_values where
  "manual_sliders = defaultValues\<lparr> leftUpperArmY := 90, rightUpperArmY := 45, useManualRotations := True \<rparr>"

text \<open>A rig with one skeleton: a left upper arm (bone 0) and a root bone.\<close>

definition one_arm_bones :: "bone_id \<Rightarrow> bone" where
  "one_arm_bones b =
     \<lparr> bone_name = (if b = 0 then ''upperarm_l'' else ''root''), bone_rotation = zero_euler \<rparr>"

definition one_arm_model :: group where
  "one_arm_model = [OtherObject, SkinnedMesh (Some [0, 1])]"

definition one_arm_rig :: rig_state where
  "one_arm_rig = initEffect (Some one_arm_model) (mount one_arm_bones)"

text \<open>
  A rig with two armatures whose bones carry the same names: bones 0 and 2 are both
  \<open>upperarm_l\<close> (with different rotations at binding time), bones 1 and 3 are both
  the twist bone \<open>upperarm_l_twist01\<close>.
\<close>

definition two_armature_bones :: "bone_id \<Rightarrow> bone" where
  "two_armature_bones b =
     \<lparr> bone_name = (if b = 0 \<or> b = 2 then ''upperarm_l'' else ''upperarm_l_twist01''),
       bone_rotation = \<lparr> euler_x = (if b = 0 then 1 else 2), euler_y = 0, euler_z = 0 \<rparr> \<rparr>"

definition two_armature_model :: group where
  "two_armature_model = [SkinnedMesh (Some [0, 1]), OtherObject, SkinnedMesh (Some [2, 3])]"

definition two_armature_rig :: rig_state where
  "two_armature_rig = initEffect (Some two_armature_model) (mount two_armature_bones)"

text \<open>A rig whose only bone has a name that passes two of the four tests.\<close>

definition crossed_bones :: "bone_id \<Rightarrow> bone" where
  "crossed_bones b = \<lparr> bone_name = ''lowerarm_l_upperarm_r'', bone_rotation = zero_euler \<rparr>"

definition crossed_model :: group where
  "crossed_model = [SkinnedMesh (Some [0])]"

definition crossed_rig :: rig_state where
  "crossed_rig = initEffect (Some crossed_model) (mount crossed_bones)"

text \<open>A skeleton whose only bone is a bicep helper of the left upper arm.\<close>

definition bicep_bones :: "bone_id \<Rightarrow> bone" where
  "bicep_bones b = \<lparr> bone_name = ''L_UpperArm_Bicep'', bone_rotation = zero_euler \<rparr>"

text \<open>
  A frame of 33 landmarks: both elbows straight below their shoulders, the left
  shoulder at (0.3, 0.4) and the left elbow at (0.3, 0.6).
\<close>

definition mark :: "real \<Rightarrow> real \<Rightarrow> landmark" where
  "mark a b = \<lparr> lm_x = a, lm_y = b, lm_z = None \<rparr>"

definition arms_down_pose :: "landmark list" where
  "arms_down_pose =
     (replicate 33 (mark (5 / 10) (5 / 10)))
       [11 := mark (3 / 10) (4 / 10), 12 := mark (7 / 10) (4 / 10),
        13 := mark (3 / 10) (6 / 10), 14 := mark (7 / 10) (6 / 10)]"

definition arms_down_frame :: "results option" where
  "arms_down_frame = Some (Results (Some arms_down_pose))"

text \<open>Sliders set to the arms-down calibration angle on both upper arms.\<close>

definition arms_down_sliders :: debug_values where
  "arms_down_sliders = defaultValues\<lparr> leftUpperArmY := 13, rightUpperArmY := 13 \<rparr>"

text \<open>Feeding the calibrated variant the same frame \<open>n\<close> times.\<close>

fun feed :: "nat \<Rightarrow> group option \<Rightarrow> results option \<Rightarrow> bool \<Rightarrow> debug_values \<Rightarrow> rig_state \<Rightarrow> rig_state" where
  "feed 0 model landmarks mirrored dv st = st"
| "feed (Suc n) model landmarks mirrored dv st =
     outcome_state (frameEffect_calibrated model landmarks mirrored dv (feed n model landmarks mirrored dv st))"

text \<open>
  The one-arm rig after one update in manual mode with every slider at zero: the keys
  with a binding now have the smoothing entry (0, 0, 0).
\<close>

definition zero_sliders_manual :: debug_values where
  "zero_sliders_manual = defaultValues\<lparr> useManualRotations := True \<rparr>"

definition one_arm_rig_posed :: rig_state where
  "one_arm_rig_posed =
     outcome_state (frameEffect_calibrated (Some one_arm_model) None False zero_sliders_manual one_arm_rig)"

section \<open>Stated invariants\<close>

text \<open>
  The clamp invariant of the calibrated variant, as the constraints block states it:
  position X in [-0.6, 0.6], position Y in [-7.0, 0.9], position Z zero, a uniform scale
  in [0.6, 1.8], and no rotation about Y.
\<close>

definition clamp_invariant :: "rig_state \<Rightarrow> bool" where
  "clamp_invariant st \<longleftrightarrow>
     - (6 / 10) \<le> vec_x (model_position st) \<and> vec_x (model_position st) \<le> 6 / 10 \<and>
     - 7 \<le> vec_y (model_position st) \<and> vec_y (model_position st) \<le> 9 / 10 \<and>
     vec_z (model_position st) = 0 \<and>
     vec_y (model_scale st) = vec_x (model_scale st) \<and>
     vec_z (model_scale st) = vec_x (model_scale st) \<and>
     6 / 10 \<le> vec_x (model_scale st) \<and> vec_x (model_scale st) \<le> 18 / 10 \<and>
     euler_y (model_rotation st) = 0"



text \<open>
  The markers of secondary deformation bones: the eight the upper-arm tests of the
  initialisation effect reject, and the six \<open>findBoneByPattern\<close> rejects in its second
  pass.
\<close>

definition upper_arm_markers :: "string list" where
  "upper_arm_markers = [''twist'', ''corrective'', ''_in'', ''_out'', ''_fwd'', ''_bck'', ''bicep'', ''tricep'']"

definition pattern_markers :: "string list" where
  "pattern_markers = [''twist'', ''corrective'', ''_in_'', ''_out_'', ''_fwd'', ''_bck'']"

text \<open>
  The manual sliders supply the same rotations as the tracked path computes from arm
  ratios \<open>ratioL\<close> and \<open>ratioR\<close>: zero on X and Z of the upper arms, the mapped Y
  rotation on their Y, and zero for the lower arms.
\<close>

definition sliders_match :: "debug_values \<Rightarrow> real \<Rightarrow> real \<Rightarrow> bool" where
  "sliders_match dv ratioL ratioR \<longleftrightarrow>
     leftUpperArmX dv * DEG2RAD = 0 \<and>
     leftUpperArmY dv * DEG2RAD = mapToYRotation ratioL \<and>
     leftUpperArmZ dv * DEG2RAD = 0 \<and>
     rightUpperArmX dv * DEG2RAD = 0 \<and>
     rightUpperArmY dv * DEG2RAD = mapToYRotation ratioR \<and>
     rightUpperArmZ dv * DEG2RAD = 0 \<and>
     leftLowerArmX dv * DEG2RAD = 0 \<and> leftLowerArmY dv * DEG2RAD = 0 \<and> leftLowerArmZ dv * DEG2RAD = 0 \<and>
     rightLowerArmX dv * DEG2RAD = 0 \<and> rightLowerArmY dv * DEG2RAD = 0 \<and> rightLowerArmZ dv * DEG2RAD = 0"

text \<open>
  Two states agree downstream of the solver, outside a set of bones: the same smoothing
  state, the same rest map, and the same bone objects except possibly those in the set.
\<close>

definition agree_off :: "bone_id set \<Rightarrow> rig_state \<Rightarrow> rig_state \<Rightarrow> bool" where
  "agree_off X st st' \<longleftrightarrow>
     smoothRotations st = smoothRotations st' \<and>
     restRotationsRef st = restRotationsRef st' \<and>
     (\<forall>b. b \<notin> X \<longrightarrow> bones st b = bones st' b)"

text \<open>
  Nothing of the rig has changed between two states: the same bone objects, smoothing
  state and rest map, and the same model transform (the frame counter may differ).
\<close>

definition rig_unchanged :: "rig_state \<Rightarrow> rig_state \<Rightarrow> bool" where
  "rig_unchanged st st' \<longleftrightarrow>
     bones st' = bones st \<and>
     smoothRotations st' = smoothRotations st \<and>
     restRotationsRef st' = restRotationsRef st \<and>
     model_position st' = model_position st \<and>
     model_scale st' = model_scale st \<and>
     model_rotation st' = model_rotation st"

text \<open>
  The end-to-end scenario of the single-axis strategy: an initialised hook in tracking
  mode, a frame that holds the four arm landmarks with the left shoulder at (0.3, 0.4)
  and the left elbow at (0.3, 0.6), and a non-empty binding for the upper arm those
  landmarks drive (\<open>upperarm_r\<close> when mirrored, \<open>upperarm_l\<close> otherwise).
\<close>

definition arms_down_scenario :: "rig_state \<Rightarrow> arm_bones \<Rightarrow> debug_values \<Rightarrow> landmark list \<Rightarrow> bool \<Rightarrow> bool" where
  "arms_down_scenario st ab dv pose mirrored \<longleftrightarrow>
     initializedRef st \<and> armBonesRef st = Some ab \<and>
     enableTracking dv \<and> \<not> useManualRotations dv \<and>
     RIGHT_ELBOW < length pose \<and>
     lm_x (pose ! LEFT_SHOULDER) = 3 / 10 \<and> lm_y (pose ! LEFT_SHOULDER) = 4 / 10 \<and>
     lm_x (pose ! LEFT_ELBOW) = 3 / 10 \<and> lm_y (pose ! LEFT_ELBOW) = 6 / 10 \<and>
     (if mirrored then upperarm_r ab else upperarm_l ab) \<noteq> []"









section \<open>Properties of the smoothing filter\<close>

lemma smoothAxis_dist: "smoothAxis a t s - t = (1 - a) * (s - t)"
  by (simp add: smoothAxis_def algebra_simps)

lemma smoothAxis_iter_dist: "(smoothAxis a t ^^ n) s - t = (1 - a) ^ n * (s - t)"
proof (induction n)
  case 0
  show ?case by simp
next
  case (Suc n)
  have "(smoothAxis a t ^^ Suc n) s - t = (1 - a) * ((smoothAxis a t ^^ n) s - t)"
    by (simp add: smoothAxis_dist)
  also have "\<dots> = (1 - a) ^ Suc n * (s - t)"
    by (simp add: Suc.IH)
  finally show ?case .
qed

lemma smoothAxis_fixed: "smoothAxis a t t = t"
  by (simp add: smoothAxis_def)

lemma smoothAxis_iter_fixed: "(smoothAxis a t ^^ n) t = t"
  by (induction n) (simp_all add: smoothAxis_fixed)

lemma smoothAxis_iter_abs:
  "\<bar>(smoothAxis a t ^^ n) s - t\<bar> = \<bar>1 - a\<bar> ^ n * \<bar>s - t\<bar>"
  by (simp add: smoothAxis_iter_dist abs_mult power_abs)

lemma smoothAxis_iter_eventually:
  assumes a: "0 < a" "a \<le> 1" and e: "0 < e"
  shows "\<exists>N. \<forall>n\<ge>N. \<bar>(smoothAxis a t ^^ n) s - t\<bar> < e"
proof (cases "s = t")
  case True
  then show ?thesis using e by (simp add: smoothAxis_iter_fixed)
next
  case False
  define q where "q = 1 - a"
  have q: "0 \<le> q" "q < 1" using a by (simp_all add: q_def)
  have pos: "0 < e / \<bar>s - t\<bar>" using e False by simp
  from real_arch_pow_inv [OF pos q(2)] obtain N where N: "q ^ N < e / \<bar>s - t\<bar>"
    by blast
  have "\<bar>(smoothAxis a t ^^ n) s - t\<bar> < e" if "N \<le> n" for n
  proof -
    have "q ^ n \<le> q ^ N"
      using q that by (simp add: power_decreasing)
    then have "q ^ n < e / \<bar>s - t\<bar>" using N by linarith
    then have "q ^ n * \<bar>s - t\<bar> < e"
      using False by (simp add: pos_less_divide_eq)
    moreover have "\<bar>(smoothAxis a t ^^ n) s - t\<bar> = q ^ n * \<bar>s - t\<bar>"
      using q by (simp add: smoothAxis_iter_abs q_def)
    ultimately show ?thesis by simp
  qed
  then show ?thesis by blast
qed

lemma smoothAxis_iter_props:
  assumes "0 < a" and "a \<le> 1"
  shows "\<bar>(smoothAxis a t ^^ n) s - t\<bar> = (1 - a) ^ n * \<bar>s - t\<bar>"
    and "\<bar>(smoothAxis a t ^^ Suc n) s - t\<bar> \<le> \<bar>(smoothAxis a t ^^ n) s - t\<bar>"
    and "0 < e \<Longrightarrow> \<exists>N. \<forall>n\<ge>N. \<bar>(smoothAxis a t ^^ n) s - t\<bar> < e"
    and "s \<le> t \<Longrightarrow> (smoothAxis a t ^^ n) s \<le> t"
    and "t \<le> s \<Longrightarrow> t \<le> (smoothAxis a t ^^ n) s"
proof -
  have q: "0 \<le> 1 - a" "1 - a \<le> 1" using assms by simp_all
  show eq: "\<bar>(smoothAxis a t ^^ n) s - t\<bar> = (1 - a) ^ n * \<bar>s - t\<bar>" for n
    using q by (simp add: smoothAxis_iter_abs)
  have "(1 - a) ^ Suc n * \<bar>s - t\<bar> \<le> (1 - a) ^ n * \<bar>s - t\<bar>"
    using q by (intro mult_right_mono power_decreasing) simp_all
  then show "\<bar>(smoothAxis a t ^^ Suc n) s - t\<bar> \<le> \<bar>(smoothAxis a t ^^ n) s - t\<bar>"
    by (simp only: eq)
  show "\<exists>N. \<forall>n\<ge>N. \<bar>(smoothAxis a t ^^ n) s - t\<bar> < e" if "0 < e"
    using smoothAxis_iter_eventually [OF assms that] .
  have pw: "0 \<le> (1 - a) ^ n" using q by simp
  show "(smoothAxis a t ^^ n) s \<le> t" if "s \<le> t"
  proof -
    have "(1 - a) ^ n * (s - t) \<le> 0"
      using pw that by (simp add: mult_nonneg_nonpos)
    then show ?thesis using smoothAxis_iter_dist [where a = a and t = t and n = n and s = s] by linarith
  qed
  show "t \<le> (smoothAxis a t ^^ n) s" if "t \<le> s"
  proof -
    have "0 \<le> (1 - a) ^ n * (s - t)"
      using pw that by simp
    then show ?thesis using smoothAxis_iter_dist [where a = a and t = t and n = n and s = s] by linarith
  qed
qed

text \<open>
  C7. For a fixed target \<open>t\<close> and a smoothing factor \<open>0 < a \<le> 1\<close>, repeating the
  update \<open>smoothed \<leftarrow> smoothed + (t - smoothed) * a\<close> scales the distance to the target
  by \<open>1 - a\<close> at every step, so the distance never grows and is eventually below any
  \<open>e > 0\<close>; and the smoothed value never crosses the target: it stays on the side it
  started from.
\<close>

theorem smoothing_converges_without_overshoot:
  assumes "0 < a" and "a \<le> 1"
  shows "\<bar>(smoothAxis a t ^^ n) s - t\<bar> = (1 - a) ^ n * \<bar>s - t\<bar>
    \<and> \<bar>(smoothAxis a t ^^ Suc n) s - t\<bar> \<le> \<bar>(smoothAxis a t ^^ n) s - t\<bar>
    \<and> (0 < e \<longrightarrow> (\<exists>N. \<forall>n\<ge>N. \<bar>(smoothAxis a t ^^ n) s - t\<bar> < e))
    \<and> (s \<le> t \<longrightarrow> (smoothAxis a t ^^ n) s \<le> t)
    \<and> (t \<le> s \<longrightarrow> t \<le> (smoothAxis a t ^^ n) s)"
  using smoothAxis_iter_props [OF assms] by blast

theorem smoothing_converges_without_overshoot_witness:
  "(0::real) < 35 / 100 \<and> (35 / 100 :: real) \<le> 1
    \<and> \<bar>(smoothAxis (35 / 100) 1 ^^ 2) 0 - 1\<bar> = (1 - 35 / 100) ^ 2 * \<bar>0 - 1\<bar>
    \<and> \<bar>(smoothAxis (35 / 100) 1 ^^ Suc 2) 0 - 1\<bar> \<le> \<bar>(smoothAxis (35 / 100) 1 ^^ 2) 0 - 1\<bar>
    \<and> (\<exists>N. \<forall>n\<ge>N. \<bar>(smoothAxis (35 / 100) 1 ^^ n) 0 - 1\<bar> < 1 / 2)
    \<and> (smoothAxis (35 / 100) 1 ^^ 2) 0 \<le> 1
    \<and> 1 \<le> (smoothAxis (35 / 100) 1 ^^ 2) 2"
proof -
  have h: "(0::real) < 35 / 100" "(35 / 100 :: real) \<le> 1" by simp_all
  show ?thesis
    using h
      smoothing_converges_without_overshoot [OF h, where t = 1 and s = 0 and n = 2 and e = "1 / 2"]
      smoothing_converges_without_overshoot [OF h, where t = 1 and s = 2 and n = 2 and e = "1 / 2"]
    by simp
qed

section \<open>What one call of an applier changes\<close>

lemma write_bones_notin: "b \<notin> set bns \<Longrightarrow> write_bones w bns bs b = bs b"
  by (induction bns arbitrary: bs) auto

lemma write_bones_in:
  assumes idem: "\<And>x. w (w x) = w x"
  shows "b \<in> set bns \<Longrightarrow> write_bones w bns bs b = w (bs b)"
proof (induction bns arbitrary: bs)
  case Nil
  then show ?case by simp
next
  case (Cons c rest)
  show ?case
  proof (cases "b \<in> set rest")
    case True
    then have "write_bones w rest (bs(c := w (bs c))) b = w ((bs(c := w (bs c))) b)"
      by (rule Cons.IH)
    then show ?thesis by (simp add: idem)
  next
    case False
    with Cons.prems have "b = c" by simp
    with False show ?thesis by (simp add: write_bones_notin)
  qed
qed

lemma write_bones_name: 
  assumes "\<And>x. bone_name (w x) = bone_name x"
  shows "bone_name (write_bones w bns bs b) = bone_name (bs b)"
  using assms by (induction bns arbitrary: bs) auto

lemma write_rest_xyz_idem: "write_rest_xyz rest s (write_rest_xyz rest s x) = write_rest_xyz rest s x"
  by (simp add: write_rest_xyz_def split: option.split)




lemma applyArmRotation_frame:
  "model_position (applyArmRotation a bns k x y z st) = model_position st"
  "model_scale (applyArmRotation a bns k x y z st) = model_scale st"
  "model_rotation (applyArmRotation a bns k x y z st) = model_rotation st"
  "armBonesRef (applyArmRotation a bns k x y z st) = armBonesRef st"
  "restRotationsRef (applyArmRotation a bns k x y z st) = restRotationsRef st"
  "initializedRef (applyArmRotation a bns k x y z st) = initializedRef st"
  "frameRef (applyArmRotation a bns k x y z st) = frameRef st"
  by (simp_all add: applyArmRotation_def Let_def)

lemma applyRotationToAll_frame:
  "model_position (applyRotationToAll a bns k x y z st) = model_position st"
  "model_scale (applyRotationToAll a bns k x y z st) = model_scale st"
  "model_rotation (applyRotationToAll a bns k x y z st) = model_rotation st"
  "armBonesRef (applyRotationToAll a bns k x y z st) = armBonesRef st"
  "restRotationsRef (applyRotationToAll a bns k x y z st) = restRotationsRef st"
  "initializedRef (applyRotationToAll a bns k x y z st) = initializedRef st"
  "frameRef (applyRotationToAll a bns k x y z st) = frameRef st"
  by (simp_all add: applyRotationToAll_def Let_def)

lemma applyArmRotation_smooth:
  "smoothRotations (applyArmRotation a bns k x y z st) =
     (if bns = [] then smoothRotations st
      else (smoothRotations st)(k \<mapsto> smoothed a (smoothRotations st k) x y z))"
  by (simp add: applyArmRotation_def Let_def)

lemma applyRotationToAll_smooth:
  "smoothRotations (applyRotationToAll a bns k x y z st) =
     (if bns = [] then smoothRotations st
      else (smoothRotations st)(k \<mapsto> smoothed a (smoothRotations st k) x y z))"
  by (simp add: applyRotationToAll_def Let_def)

lemma applyArmRotation_bone:
  "bones (applyArmRotation a bns k x y z st) b =
     (if b \<in> set bns
      then write_rest_xyz (restRotationsRef st) (smoothed a (smoothRotations st k) x y z) (bones st b)
      else bones st b)"
  by (auto simp add: applyArmRotation_def Let_def write_bones_notin write_bones_in write_rest_xyz_idem)




section \<open>The example rigs after binding\<close>

lemma name_upperarm_l:
  "matches_upperarm ''upperarm_l'' (toLowerCase ''upperarm_l'')"
  "\<not> matches_upperarm ''upperarm_r'' (toLowerCase ''upperarm_l'')"
  "\<not> matches_lowerarm ''lowerarm_l'' (toLowerCase ''upperarm_l'')"
  "\<not> matches_lowerarm ''lowerarm_r'' (toLowerCase ''upperarm_l'')"
  by code_simp+

lemma name_root:
  "\<not> matches_upperarm ''upperarm_l'' (toLowerCase ''root'')"
  "\<not> matches_upperarm ''upperarm_r'' (toLowerCase ''root'')"
  "\<not> matches_lowerarm ''lowerarm_l'' (toLowerCase ''root'')"
  "\<not> matches_lowerarm ''lowerarm_r'' (toLowerCase ''root'')"
  by code_simp+

lemma one_arm_bound:
  "find_arm_bones (mount one_arm_bones) one_arm_model =
     \<lparr> upperarm_l = [0], upperarm_r = [], lowerarm_l = [], lowerarm_r = [] \<rparr>"
  by (simp add: find_arm_bones_def traversed_bones_def one_arm_model_def lowered_name_def
      mount_def one_arm_bones_def name_upperarm_l name_root)

lemma one_arm_rig_simps:
  "armBonesRef one_arm_rig = Some \<lparr> upperarm_l = [0], upperarm_r = [], lowerarm_l = [], lowerarm_r = [] \<rparr>"
  "restRotationsRef one_arm_rig = [''upperarm_l'' \<mapsto> zero_euler]"
  "smoothRotations one_arm_rig = Map.empty"
  "initializedRef one_arm_rig"
  "bones one_arm_rig = one_arm_bones"
  by (simp_all add: one_arm_rig_def initEffect_def one_arm_bound allBones_def Let_def)
    (simp_all add: mount_def one_arm_bones_def)

section \<open>Absent frames\<close>

lemma frameEffect_absent:
  "pose_of landmarks = None \<Longrightarrow> frameEffect model landmarks mirrored st = Done st"
  by (simp add: frameEffect_def split: option.split)

lemma frameEffect_calibrated_absent:
  "pose_of landmarks = None \<Longrightarrow> \<not> useManualRotations dv \<Longrightarrow>
     frameEffect_calibrated model landmarks mirrored dv st = Done st"
  by (simp add: frameEffect_calibrated_def split: option.split)

text \<open>
  C9, as the code has it. When the landmark frame is null or has no pose landmarks, the
  per-frame effect of \<^verbatim>\<open>src/hooks/useBodyModelRigging.ts\<close> returns
  with the whole state as it was: no bone write, the same smoothing state, the same model
  transform. The calibrated variant does the same whenever manual rotations are off; with
  manual rotations on it applies the slider values whether or not there is a frame. An
  empty landmark array passes the guard and the effect stops at the first landmark read:
  only the frame counter may have moved, the rig is unchanged.
\<close>

theorem absent_frame_holds_state:
  "(pose_of landmarks = None \<longrightarrow>
      frameEffect model landmarks mirrored st = Done st
      \<and> (\<not> useManualRotations dv \<longrightarrow>
           frameEffect_calibrated model landmarks mirrored dv st = Done st))
   \<and> rig_unchanged st (outcome_state (frameEffect model (Some (Results (Some []))) mirrored st))
   \<and> (\<not> useManualRotations dv \<longrightarrow>
        rig_unchanged st
          (outcome_state (frameEffect_calibrated model (Some (Results (Some []))) mirrored dv st)))"
proof -
  have 1: "rig_unchanged st (outcome_state (frameEffect model (Some (Results (Some []))) mirrored st))"
    by (simp add: frameEffect_def poseUpdate_def pose_of_def at_index_def of_landmarks_def
        rig_unchanged_def Let_def split: option.split)
  have 2: "rig_unchanged st
          (outcome_state (frameEffect_calibrated model (Some (Results (Some []))) mirrored dv st))"
    if "\<not> useManualRotations dv"
    using that
    by (simp add: frameEffect_calibrated_def trackingMode_def pose_of_def at_index_def
        of_landmarks_def rig_unchanged_def Let_def split: option.split)
  show ?thesis
    using 1 2 frameEffect_absent [of landmarks model mirrored st]
      frameEffect_calibrated_absent [of landmarks dv model mirrored st]
    by blast
qed

theorem absent_frame_holds_state_witness:
  "pose_of (Some (Results None)) = None
    \<and> \<not> useManualRotations defaultValues
    \<and> frameEffect (Some one_arm_model) (Some (Results None)) True one_arm_rig = Done one_arm_rig
    \<and> frameEffect_calibrated (Some one_arm_model) (Some (Results None)) True defaultValues one_arm_rig
        = Done one_arm_rig
    \<and> bones (outcome_state
          (frameEffect_calibrated (Some one_arm_model) (Some (Results (Some []))) True defaultValues
             one_arm_rig)) = bones one_arm_rig"
proof -
  have h: "pose_of (Some (Results None)) = None" by (simp add: pose_of_def)
  have m: "\<not> useManualRotations defaultValues" by (simp add: defaultValues_def)
  show ?thesis
    using h m absent_frame_holds_state [where landmarks = "Some (Results None)"
        and dv = defaultValues and model = "Some one_arm_model" and mirrored = True and st = one_arm_rig]
    by (simp add: rig_unchanged_def)
qed

text \<open>
  With manual rotations on and no frame at all, one update of the calibrated variant
  moves bone 0 from its rest rotation to 90 degrees about Y and creates the smoothing
  entry of its key.
\<close>

theorem absent_frame_manual_mode_counterexample:
  "pose_of None = None
    \<and> bone_rotation (bones one_arm_rig 0) = zero_euler
    \<and> smoothRotations one_arm_rig ''upperarm_l'' = None
    \<and> bone_rotation (bones (outcome_state
          (frameEffect_calibrated (Some one_arm_model) None True manual_sliders one_arm_rig)) 0)
        = \<lparr> euler_x = 0, euler_y = 90 * DEG2RAD, euler_z = 0 \<rparr>
    \<and> smoothRotations (outcome_state
          (frameEffect_calibrated (Some one_arm_model) None True manual_sliders one_arm_rig)) ''upperarm_l''
        = Some \<lparr> euler_x = 0, euler_y = 90 * DEG2RAD, euler_z = 0 \<rparr>
    \<and> 90 * DEG2RAD \<noteq> 0"
  by (simp add: pose_of_def frameEffect_calibrated_def one_arm_rig_simps manual_sliders_def
      defaultValues_def manualMode_def applyArmRotation_frame applyArmRotation_smooth
      applyArmRotation_bone Let_def smoothed_def write_rest_xyz_def one_arm_bones_def zero_euler_def
      DEG2RAD_def)

section \<open>The clamp invariant\<close>

lemma clamp_bounds: "lo \<le> hi \<Longrightarrow> lo \<le> max lo (min hi (v::real)) \<and> max lo (min hi v) \<le> hi"
  by auto

lemma place_by_shoulders_fields:
  "model_position (place_by_shoulders mirrored l r st) =
     \<lparr> vec_x = max MIN_X (min MAX_X (((lm_x l + lm_x r) / 2 - 5 / 10) * mirror_sign mirrored * 2)),
       vec_y = max MIN_Y (min MAX_Y (- ((lm_y l + lm_y r) / 2 - 5 / 10) * 2 - 25 / 10)),
       vec_z = 0 \<rparr>"
  "model_scale (place_by_shoulders mirrored l r st) =
     setScalar (max MIN_SCALE (min MAX_SCALE (shoulderWidth l r * 8)))"
  "euler_y (model_rotation (place_by_shoulders mirrored l r st)) = 0"
  by (simp_all add: place_by_shoulders_def Let_def)

lemma place_by_shoulders_clamped: "clamp_invariant (place_by_shoulders mirrored l r st)"
proof -
  have x: "MIN_X \<le> MAX_X" by (simp add: MIN_X_def MAX_X_def)
  have y: "MIN_Y \<le> MAX_Y" by (simp add: MIN_Y_def MAX_Y_def)
  have s: "MIN_SCALE \<le> MAX_SCALE" by (simp add: MIN_SCALE_def MAX_SCALE_def)
  show ?thesis
    unfolding clamp_invariant_def place_by_shoulders_fields
    using clamp_bounds [OF x] clamp_bounds [OF y] clamp_bounds [OF s]
    unfolding MIN_X_def MAX_X_def MIN_Y_def MAX_Y_def MIN_SCALE_def MAX_SCALE_def
    by (simp add: setScalar_def)
qed

lemma clamp_invariant_cong:
  "model_position st' = model_position st \<Longrightarrow> model_scale st' = model_scale st \<Longrightarrow>
   model_rotation st' = model_rotation st \<Longrightarrow> clamp_invariant st' = clamp_invariant st"
  by (simp add: clamp_invariant_def)

lemma arms_by_ratio_model:
  "model_position (outcome_state (arms_by_ratio mirrored a ab pose st)) = model_position st"
  "model_scale (outcome_state (arms_by_ratio mirrored a ab pose st)) = model_scale st"
  "model_rotation (outcome_state (arms_by_ratio mirrored a ab pose st)) = model_rotation st"
  by (simp_all add: arms_by_ratio_def Let_def applyArmRotation_frame split: option.split)

lemma trackingMode_clamped:
  assumes "RIGHT_SHOULDER < length pose"
  shows "clamp_invariant (outcome_state (trackingMode mirrored a ab pose st))"
proof -
  have "LEFT_SHOULDER < length pose"
    using assms by (simp add: LEFT_SHOULDER_def RIGHT_SHOULDER_def)
  then show ?thesis
    using assms
    by (simp add: trackingMode_def Let_def of_landmarks_def at_index_def
        clamp_invariant_cong [OF arms_by_ratio_model] place_by_shoulders_clamped)
qed

text \<open>
  C10. In tracking mode of the calibrated variant (tracking enabled, manual rotations
  off, hook initialised), after an update with a landmark frame that holds the two
  shoulder landmarks the model's transform satisfies the clamp invariant, whatever the
  landmark values are (and also when a later elbow landmark is missing).
\<close>

theorem tracking_clamps_model_transform:
  assumes "initializedRef st" and "armBonesRef st = Some ab"
    and "enableTracking dv" and "\<not> useManualRotations dv"
    and "RIGHT_SHOULDER < length pose"
  shows "clamp_invariant (outcome_state
           (frameEffect_calibrated (Some g) (Some (Results (Some pose))) mirrored dv st))"
  using assms by (simp add: frameEffect_calibrated_def pose_of_def trackingMode_clamped)


lemma arms_down_pose_length: "length arms_down_pose = 33"
  by (simp add: arms_down_pose_def)

theorem tracking_clamps_model_transform_witness:
  "initializedRef one_arm_rig
    \<and> armBonesRef one_arm_rig = Some \<lparr> upperarm_l = [0], upperarm_r = [], lowerarm_l = [], lowerarm_r = [] \<rparr>
    \<and> enableTracking defaultValues \<and> \<not> useManualRotations defaultValues
    \<and> RIGHT_SHOULDER < length arms_down_pose
    \<and> clamp_invariant (outcome_state
          (frameEffect_calibrated (Some one_arm_model) (Some (Results (Some arms_down_pose))) True
             defaultValues one_arm_rig))"
proof -
  have h1: "initializedRef one_arm_rig"
    and h2: "armBonesRef one_arm_rig = Some \<lparr> upperarm_l = [0], upperarm_r = [], lowerarm_l = [], lowerarm_r = [] \<rparr>"
    by (simp_all add: one_arm_rig_simps)
  have h3: "enableTracking defaultValues" and h4: "\<not> useManualRotations defaultValues"
    by (simp_all add: defaultValues_def)
  have h5: "RIGHT_SHOULDER < length arms_down_pose"
    by (simp add: arms_down_pose_length RIGHT_SHOULDER_def)
  show ?thesis
    using h1 h2 h3 h4 h5
      tracking_clamps_model_transform [OF h1 h2 h3 h4 h5, where g = one_arm_model and mirrored = True]
    by simp
qed

section \<open>First write and fan-out\<close>

lemma name_twist:
  "\<not> matches_upperarm ''upperarm_l'' (toLowerCase ''upperarm_l_twist01'')"
  "\<not> matches_upperarm ''upperarm_r'' (toLowerCase ''upperarm_l_twist01'')"
  "\<not> matches_lowerarm ''lowerarm_l'' (toLowerCase ''upperarm_l_twist01'')"
  "\<not> matches_lowerarm ''lowerarm_r'' (toLowerCase ''upperarm_l_twist01'')"
  by code_simp+

lemma two_armature_bound:
  "find_arm_bones (mount two_armature_bones) two_armature_model =
     \<lparr> upperarm_l = [0, 2], upperarm_r = [], lowerarm_l = [], lowerarm_r = [] \<rparr>"
  by (simp add: find_arm_bones_def traversed_bones_def two_armature_model_def lowered_name_def
      mount_def two_armature_bones_def name_upperarm_l name_twist)

lemma two_armature_rig_simps:
  "armBonesRef two_armature_rig = Some \<lparr> upperarm_l = [0, 2], upperarm_r = [], lowerarm_l = [], lowerarm_r = [] \<rparr>"
  "restRotationsRef two_armature_rig = [''upperarm_l'' \<mapsto> \<lparr> euler_x = 2, euler_y = 0, euler_z = 0 \<rparr>]"
  "smoothRotations two_armature_rig = Map.empty"
  "initializedRef two_armature_rig"
  "bones two_armature_rig = two_armature_bones"
  by (simp_all add: two_armature_rig_def initEffect_def two_armature_bound allBones_def Let_def)
    (simp_all add: mount_def two_armature_bones_def)

text \<open>
  C6. When a key has no entry in the smoothing state, the first write for it (a call of
  either applier with a non-empty binding) stores the raw target itself on every axis,
  whatever the smoothing factor is: nothing is interpolated from a zero or default
  value. With an empty binding the applier returns at once and writes nothing, so the
  key stays without an entry.
\<close>

theorem first_update_sets_target_exactly:
  assumes "smoothRotations st key = None"
  shows "(bns \<noteq> [] \<longrightarrow>
            smoothRotations (applyRotationToAll a bns key x y z st) key
              = Some \<lparr> euler_x = x, euler_y = y, euler_z = z \<rparr>
          \<and> smoothRotations (applyArmRotation a bns key x y z st) key
              = Some \<lparr> euler_x = x, euler_y = y, euler_z = z \<rparr>)
    \<and> (bns = [] \<longrightarrow>
            applyRotationToAll a bns key x y z st = st \<and> applyArmRotation a bns key x y z st = st)"
proof -
  have "smoothRotations (applyRotationToAll a bns key x y z st) key
          = Some \<lparr> euler_x = x, euler_y = y, euler_z = z \<rparr>
      \<and> smoothRotations (applyArmRotation a bns key x y z st) key
          = Some \<lparr> euler_x = x, euler_y = y, euler_z = z \<rparr>" if "bns \<noteq> []"
    using assms that by (simp add: applyRotationToAll_smooth applyArmRotation_smooth smoothed_def)
  moreover have "applyRotationToAll a [] key x y z st = st \<and> applyArmRotation a [] key x y z st = st"
    by (simp add: applyRotationToAll_def applyArmRotation_def)
  ultimately show ?thesis by blast
qed

theorem first_update_sets_target_exactly_witness:
  "smoothRotations two_armature_rig ''upperarm_l'' = None
    \<and> smoothRotations (applyRotationToAll (35 / 100) [0, 2] ''upperarm_l'' 0 0 (1 / 2) two_armature_rig) ''upperarm_l''
        = Some \<lparr> euler_x = 0, euler_y = 0, euler_z = 1 / 2 \<rparr>
    \<and> smoothRotations (applyArmRotation (35 / 100) [0, 2] ''upperarm_l'' 0 (1 / 4) 0 two_armature_rig) ''upperarm_l''
        = Some \<lparr> euler_x = 0, euler_y = 1 / 4, euler_z = 0 \<rparr>
    \<and> applyArmRotation (35 / 100) [] ''upperarm_r'' 0 (1 / 4) 0 two_armature_rig = two_armature_rig"
proof -
  have h: "smoothRotations two_armature_rig ''upperarm_l'' = None"
    and h': "smoothRotations two_armature_rig ''upperarm_r'' = None"
    by (simp_all add: two_armature_rig_simps)
  show ?thesis
    using h
      first_update_sets_target_exactly [OF h, where bns = "[0, 2]" and a = "35 / 100" and x = 0 and y = 0 and z = "1 / 2"]
      first_update_sets_target_exactly [OF h, where bns = "[0, 2]" and a = "35 / 100" and x = 0 and y = "1 / 4" and z = 0]
      first_update_sets_target_exactly [OF h', where bns = "[]" and a = "35 / 100" and x = 0 and y = "1 / 4" and z = 0]
    by simp
qed






section \<open>Rest-pose capture\<close>

lemma find_snoc:
  "List.find P (xs @ [x]) = (case List.find P xs of Some y \<Rightarrow> Some y | None \<Rightarrow> if P x then Some x else None)"
  by (induction xs) auto

lemma find_SomeD: "List.find P xs = Some x \<Longrightarrow> x \<in> set xs \<and> P x"
  by (induction xs) (auto split: if_splits)

lemma capture_rest_last:
  "capture_rest bs m bns n =
     (case List.find (\<lambda>b. bone_name (bs b) = n) (rev bns) of
        Some c \<Rightarrow> Some (bone_rotation (bs c))
      | None \<Rightarrow> m n)"
  by (induction bns arbitrary: m) (auto simp add: find_snoc split: option.split)

lemma capture_restPoses_last:
  "capture_restPoses jb m bns n =
     (case List.find (\<lambda>b. fst (jb b) = n) (rev bns) of
        Some c \<Rightarrow> Some (snd (jb c))
      | None \<Rightarrow> m n)"
  by (induction bns arbitrary: m) (auto simp add: find_snoc split: option.split)

lemma capture_rest_own:
  assumes "b \<in> set bns"
    and "\<forall>c \<in> set bns. bone_name (bs c) = bone_name (bs b) \<longrightarrow> bone_rotation (bs c) = bone_rotation (bs b)"
  shows "capture_rest bs m bns (bone_name (bs b)) = Some (bone_rotation (bs b))"
proof (cases "List.find (\<lambda>c. bone_name (bs c) = bone_name (bs b)) (rev bns)")
  case None
  with assms(1) show ?thesis by (auto simp add: find_None_iff)
next
  case (Some c)
  then have "c \<in> set bns" "bone_name (bs c) = bone_name (bs b)"
    using find_SomeD [OF Some] by simp_all
  with assms(2) Some show ?thesis by (simp add: capture_rest_last)
qed

lemma initEffect_fields:
  "armBonesRef (initEffect (Some g) st) = Some (find_arm_bones st g)"
  "bones (initEffect (Some g) st) = bones st"
  "smoothRotations (initEffect (Some g) st) = smoothRotations st"
  "initializedRef (initEffect (Some g) st)"
  "restRotationsRef (initEffect (Some g) st) =
     capture_rest (bones st) (restRotationsRef st) (allBones (find_arm_bones st g))"
  by (simp_all add: initEffect_def Let_def)

lemma arms_by_angle_rest:
  "restRotationsRef (outcome_state (arms_by_angle mirrored ab pose st)) = restRotationsRef st"
  by (simp add: arms_by_angle_def Let_def applyRotationToAll_frame split: option.split)

lemma place_by_hips_rest:
  "restRotationsRef (place_by_hips mirrored a b c d st) = restRotationsRef st"
  by (simp add: place_by_hips_def Let_def)

lemma frameEffect_rest:
  "restRotationsRef (outcome_state (frameEffect model landmarks mirrored st)) = restRotationsRef st"
  by (simp add: frameEffect_def poseUpdate_def Let_def arms_by_angle_rest place_by_hips_rest
      split: option.split prod.split)

lemma arms_by_ratio_rest:
  "restRotationsRef (outcome_state (arms_by_ratio mirrored a ab pose st)) = restRotationsRef st"
  by (simp add: arms_by_ratio_def Let_def applyArmRotation_frame split: option.split)

lemma place_by_shoulders_rest:
  "restRotationsRef (place_by_shoulders mirrored l r st) = restRotationsRef st"
  by (simp add: place_by_shoulders_def Let_def)

lemma manualMode_rest: "restRotationsRef (manualMode dv ab st) = restRotationsRef st"
  by (simp add: manualMode_def Let_def applyArmRotation_frame)

lemma frameEffect_calibrated_rest:
  "restRotationsRef (outcome_state (frameEffect_calibrated model landmarks mirrored dv st)) = restRotationsRef st"
  by (simp add: frameEffect_calibrated_def trackingMode_def Let_def arms_by_ratio_rest
      place_by_shoulders_rest manualMode_rest split: option.split prod.split)

lemma frameEffect_uninitialised:
  "\<not> initializedRef st \<Longrightarrow> frameEffect model landmarks mirrored st = Done st"
  "\<not> initializedRef st \<Longrightarrow> frameEffect_calibrated model landmarks mirrored dv st = Done st"
  by (simp_all add: frameEffect_def frameEffect_calibrated_def split: option.split)

text \<open>
  C4, as the code has it. The rest-pose map is keyed by bone name. After binding, the
  entry of a name is the rotation, at binding time, of the last bound bone with that name
  (the lists are taken in the order upper left, upper right, lower left, lower right); a
  name no bound bone has keeps its earlier entry. So a bound bone finds its own rotation
  under its name when every bound bone of that name had the same rotation, in particular
  when bound bones have distinct names. The jacket hook builds a fresh map the same way
  from the last skeleton. Binding writes no bone; the per-frame effects write nothing
  before the hook is initialised and never change the map.
\<close>

theorem rest_pose_keyed_by_name:
  "bones (initEffect (Some g) st) = bones st
   \<and> (\<forall>n. restRotationsRef (initEffect (Some g) st) n =
          (case List.find (\<lambda>b. bone_name (bones st b) = n) (rev (allBones (find_arm_bones st g))) of
             Some c \<Rightarrow> Some (bone_rotation (bones st c))
           | None \<Rightarrow> restRotationsRef st n))
   \<and> (\<forall>b \<in> set (allBones (find_arm_bones st g)).
         (\<forall>c \<in> set (allBones (find_arm_bones st g)).
            bone_name (bones st c) = bone_name (bones st b) \<longrightarrow>
            bone_rotation (bones st c) = bone_rotation (bones st b)) \<longrightarrow>
         restRotationsRef (initEffect (Some g) st) (bone_name (bones st b))
           = Some (bone_rotation (bones st b)))
   \<and> (\<forall>n. restPosesRef (jacketInitEffect jb (Some g) js) n =
          (case last_skeleton g of
             None \<Rightarrow> restPosesRef js n
           | Some skeleton \<Rightarrow>
               (case List.find (\<lambda>b. fst (jb b) = n) (rev skeleton) of
                  Some c \<Rightarrow> Some (snd (jb c))
                | None \<Rightarrow> None)))
   \<and> restRotationsRef (outcome_state (frameEffect model landmarks mirrored st)) = restRotationsRef st
   \<and> restRotationsRef (outcome_state (frameEffect_calibrated model landmarks mirrored dv st))
        = restRotationsRef st
   \<and> (\<not> initializedRef st \<longrightarrow>
         frameEffect model landmarks mirrored st = Done st
         \<and> frameEffect_calibrated model landmarks mirrored dv st = Done st)"
proof -
  have jacket: "restPosesRef (jacketInitEffect jb (Some g) js) n =
          (case last_skeleton g of
             None \<Rightarrow> restPosesRef js n
           | Some skeleton \<Rightarrow>
               (case List.find (\<lambda>b. fst (jb b) = n) (rev skeleton) of
                  Some c \<Rightarrow> Some (snd (jb c))
                | None \<Rightarrow> None))" for n
    by (simp add: jacketInitEffect_def capture_restPoses_last split: option.split)
  have own: "restRotationsRef (initEffect (Some g) st) (bone_name (bones st b))
           = Some (bone_rotation (bones st b))"
    if "b \<in> set (allBones (find_arm_bones st g))"
      and "\<forall>c \<in> set (allBones (find_arm_bones st g)).
            bone_name (bones st c) = bone_name (bones st b) \<longrightarrow>
            bone_rotation (bones st c) = bone_rotation (bones st b)" for b
    unfolding initEffect_fields using that by (rule capture_rest_own)
  have last: "restRotationsRef (initEffect (Some g) st) n =
          (case List.find (\<lambda>b. bone_name (bones st b) = n) (rev (allBones (find_arm_bones st g))) of
             Some c \<Rightarrow> Some (bone_rotation (bones st c))
           | None \<Rightarrow> restRotationsRef st n)" for n
    unfolding initEffect_fields by (rule capture_rest_last)
  show ?thesis
    using jacket own last initEffect_fields(2) [of g st] frameEffect_rest [of model landmarks mirrored st]
      frameEffect_calibrated_rest [of model landmarks mirrored dv st]
      frameEffect_uninitialised [of st model landmarks mirrored]
    by blast
qed


lemma one_arm_allBones: "allBones (find_arm_bones (mount one_arm_bones) one_arm_model) = [0]"
  by (simp add: one_arm_bound allBones_def)

theorem rest_pose_keyed_by_name_witness:
  "allBones (find_arm_bones (mount one_arm_bones) one_arm_model) = [0]
    \<and> bone_name (bones (mount one_arm_bones) 0) = ''upperarm_l''
    \<and> bone_rotation (bones (mount one_arm_bones) 0) = zero_euler
    \<and> restRotationsRef (initEffect (Some one_arm_model) (mount one_arm_bones)) ''upperarm_l''
         = Some zero_euler
    \<and> \<not> initializedRef (mount one_arm_bones)
    \<and> frameEffect (Some one_arm_model) arms_down_frame True (mount one_arm_bones)
         = Done (mount one_arm_bones)
    \<and> frameEffect_calibrated (Some one_arm_model) arms_down_frame True defaultValues (mount one_arm_bones)
         = Done (mount one_arm_bones)"
proof -
  have b: "bone_name (bones (mount one_arm_bones) 0) = ''upperarm_l''"
    "bone_rotation (bones (mount one_arm_bones) 0) = zero_euler"
    "\<not> initializedRef (mount one_arm_bones)"
    by (simp_all add: mount_def one_arm_bones_def)
  show ?thesis
    using b one_arm_allBones
      rest_pose_keyed_by_name [where g = one_arm_model and st = "mount one_arm_bones"
        and model = "Some one_arm_model" and landmarks = arms_down_frame and mirrored = True
        and dv = defaultValues]
    by simp
qed

text \<open>
  In the rig with two armatures bone 0 is bound, and its rotation at binding time is
  (1, 0, 0); the entry under its name holds the rotation of bone 2, and no entry of the
  map holds the rotation of bone 0.
\<close>

theorem rest_pose_by_identity_counterexample:
  "upperarm_l (find_arm_bones (mount two_armature_bones) two_armature_model) = [0, 2]
    \<and> bone_rotation (bones (mount two_armature_bones) 0) = \<lparr> euler_x = 1, euler_y = 0, euler_z = 0 \<rparr>
    \<and> restRotationsRef two_armature_rig (bone_name (bones (mount two_armature_bones) 0))
         = Some \<lparr> euler_x = 2, euler_y = 0, euler_z = 0 \<rparr>
    \<and> bone_rotation (bones (mount two_armature_bones) 0) \<notin> ran (restRotationsRef two_armature_rig)"
  by (simp add: two_armature_bound two_armature_rig_simps) (simp add: mount_def two_armature_bones_def)

section \<open>Bone resolution\<close>

lemma matches_upperarm_markers:
  "matches_upperarm pat name \<longleftrightarrow>
     includesStr name pat \<and> (\<forall>m \<in> set upper_arm_markers. \<not> includesStr name m)"
  by (auto simp add: matches_upperarm_def upper_arm_markers_def)

lemma includes_match_markers:
  "includes_match bs pat b \<longleftrightarrow>
     includesStr (toLowerCase (bone_name (bs b))) (toLowerCase pat)
     \<and> (\<forall>m \<in> set pattern_markers. \<not> includesStr (toLowerCase (bone_name (bs b))) m)"
  by (auto simp add: includes_match_def pattern_markers_def)

lemma upperarm_bound_iff:
  "b \<in> set (upperarm_l (find_arm_bones st g)) \<longleftrightarrow>
     b \<in> set (traversed_bones g) \<and> matches_upperarm ''upperarm_l'' (lowered_name st b)"
  "b \<in> set (upperarm_r (find_arm_bones st g)) \<longleftrightarrow>
     b \<in> set (traversed_bones g) \<and> matches_upperarm ''upperarm_r'' (lowered_name st b)"
  by (simp_all add: find_arm_bones_def)

lemma lowered_upperarm_l:
  "matches_upperarm ''upperarm_l'' ''upperarm_l''"
  "\<not> matches_upperarm ''upperarm_l'' ''upperarm_l_twist01''"
  "toLowerCase ''upperarm_l'' = ''upperarm_l''"
  by code_simp+

lemma upper_arm_patterns_clean:
  "\<forall>p \<in> set (BONE_NAME_PATTERNS Key_leftUpperArm). \<forall>m \<in> set pattern_markers. \<not> includesStr (toLowerCase p) m"
  "\<forall>p \<in> set (BONE_NAME_PATTERNS Key_rightUpperArm). \<forall>m \<in> set pattern_markers. \<not> includesStr (toLowerCase p) m"
  by code_simp+

lemma first_hit_SomeD:
  "first_hit test skeleton patterns = Some b \<Longrightarrow> b \<in> set skeleton \<and> (\<exists>p \<in> set patterns. test p b)"
proof (induction patterns)
  case Nil
  then show ?case by simp
next
  case (Cons p ps)
  show ?case
  proof (cases "List.find (test p) skeleton")
    case None
    with Cons show ?thesis by auto
  next
    case (Some c)
    with Cons.prems have "c = b" by simp
    with Some find_SomeD [of "test p" skeleton b] show ?thesis by simp
  qed
qed

lemma findBoneByPattern_SomeD:
  assumes "findBoneByPattern bs skeleton key = Some b"
  shows "b \<in> set skeleton
    \<and> (\<exists>p \<in> set (BONE_NAME_PATTERNS key).
          exact_match bs p b \<or> includes_match bs p b)"
proof (cases "first_hit (exact_match bs) skeleton (BONE_NAME_PATTERNS key)")
  case None
  with assms have "first_hit (includes_match bs) skeleton (BONE_NAME_PATTERNS key) = Some b"
    by (simp add: findBoneByPattern_def)
  from first_hit_SomeD [OF this] show ?thesis by blast
next
  case (Some c)
  with assms have "c = b" by (simp add: findBoneByPattern_def)
  with Some first_hit_SomeD [of "exact_match bs" skeleton "BONE_NAME_PATTERNS key" b]
  show ?thesis by blast
qed

lemma findBoneByPattern_upper_arm_markers:
  assumes "findBoneByPattern bs skeleton key = Some b"
    and "key = Key_leftUpperArm \<or> key = Key_rightUpperArm"
  shows "\<forall>m \<in> set pattern_markers. \<not> includesStr (toLowerCase (bone_name (bs b))) m"
proof -
  from findBoneByPattern_SomeD [OF assms(1)]
  obtain p where p: "p \<in> set (BONE_NAME_PATTERNS key)"
    and m: "exact_match bs p b \<or> includes_match bs p b" by blast
  from m show ?thesis
  proof
    assume "exact_match bs p b"
    then have "toLowerCase (bone_name (bs b)) = toLowerCase p" by (simp add: exact_match_def)
    with p assms(2) upper_arm_patterns_clean show ?thesis by auto
  next
    assume "includes_match bs p b"
    then show ?thesis by (simp add: includes_match_markers)
  qed
qed

lemma findBoneByPattern_exact_upperarm_l:
  assumes "List.find (\<lambda>b. toLowerCase (bone_name (bs b)) = ''upperarm_l'') skeleton = Some b"
  shows "findBoneByPattern bs skeleton Key_leftUpperArm = Some b"
proof -
  have "exact_match bs ''upperarm_l'' = (\<lambda>b. toLowerCase (bone_name (bs b)) = ''upperarm_l'')"
    by (simp add: exact_match_def lowered_upperarm_l fun_eq_iff)
  with assms show ?thesis by (simp add: findBoneByPattern_def)
qed

text \<open>
  C5, as the code has it. The initialisation effect never binds, under an upper-arm key, a
  bone whose lowered name contains one of the eight markers \<open>twist\<close>,
  \<open>corrective\<close>, \<open>_in\<close>, \<open>_out\<close>, \<open>_fwd\<close>,
  \<open>_bck\<close>, \<open>bicep\<close>, \<open>tricep\<close>; it binds every
  traversed bone named \<open>upperarm_l\<close> and no bone named
  \<open>upperarm_l_twist01\<close>. \<open>findBoneByPattern\<close> for an upper-arm key
  never returns a bone whose lowered name contains \<open>twist\<close>,
  \<open>corrective\<close>, \<open>_in_\<close>, \<open>_out_\<close>,
  \<open>_fwd\<close> or \<open>_bck\<close>, and in a skeleton with a bone named
  \<open>upperarm_l\<close> it returns the first such bone for
  \<open>leftUpperArm\<close>.
\<close>

theorem upper_arm_resolution_rejects_markers:
  "(\<forall>b \<in> set (upperarm_l (find_arm_bones st g)) \<union> set (upperarm_r (find_arm_bones st g)).
      \<forall>m \<in> set upper_arm_markers. \<not> includesStr (lowered_name st b) m)
   \<and> (\<forall>b \<in> set (traversed_bones g).
        lowered_name st b = ''upperarm_l'' \<longrightarrow> b \<in> set (upperarm_l (find_arm_bones st g)))
   \<and> (\<forall>b. lowered_name st b = ''upperarm_l_twist01'' \<longrightarrow> b \<notin> set (upperarm_l (find_arm_bones st g)))
   \<and> (\<forall>b. findBoneByPattern bs skeleton Key_leftUpperArm = Some b
             \<or> findBoneByPattern bs skeleton Key_rightUpperArm = Some b \<longrightarrow>
        b \<in> set skeleton
        \<and> (\<forall>m \<in> set pattern_markers. \<not> includesStr (toLowerCase (bone_name (bs b))) m))
   \<and> (\<forall>b. List.find (\<lambda>b. toLowerCase (bone_name (bs b)) = ''upperarm_l'') skeleton = Some b \<longrightarrow>
        findBoneByPattern bs skeleton Key_leftUpperArm = Some b)"
proof -
  have 1: "\<forall>m \<in> set upper_arm_markers. \<not> includesStr (lowered_name st b) m"
    if "b \<in> set (upperarm_l (find_arm_bones st g)) \<union> set (upperarm_r (find_arm_bones st g))" for b
    using that by (auto simp add: upperarm_bound_iff matches_upperarm_markers)
  have 2: "b \<in> set (upperarm_l (find_arm_bones st g))"
    if "b \<in> set (traversed_bones g)" "lowered_name st b = ''upperarm_l''" for b
    using that by (simp add: upperarm_bound_iff lowered_upperarm_l)
  have 3: "b \<notin> set (upperarm_l (find_arm_bones st g))"
    if "lowered_name st b = ''upperarm_l_twist01''" for b
    using that by (simp add: upperarm_bound_iff lowered_upperarm_l)
  have 4: "b \<in> set skeleton
        \<and> (\<forall>m \<in> set pattern_markers. \<not> includesStr (toLowerCase (bone_name (bs b))) m)"
    if "findBoneByPattern bs skeleton Key_leftUpperArm = Some b
             \<or> findBoneByPattern bs skeleton Key_rightUpperArm = Some b" for b
    using that findBoneByPattern_SomeD [of bs skeleton _ b]
      findBoneByPattern_upper_arm_markers [of bs skeleton _ b] by blast
  show ?thesis
    using 1 2 3 4 findBoneByPattern_exact_upperarm_l [of bs skeleton] by blast
qed

theorem upper_arm_resolution_rejects_markers_witness:
  "(0::nat) \<in> set (traversed_bones two_armature_model)
    \<and> lowered_name (mount two_armature_bones) 0 = ''upperarm_l''
    \<and> 0 \<in> set (upperarm_l (find_arm_bones (mount two_armature_bones) two_armature_model))
    \<and> \<not> includesStr (lowered_name (mount two_armature_bones) 0) ''twist''
    \<and> lowered_name (mount two_armature_bones) 1 = ''upperarm_l_twist01''
    \<and> 1 \<notin> set (upperarm_l (find_arm_bones (mount two_armature_bones) two_armature_model))
    \<and> List.find (\<lambda>b. toLowerCase (bone_name (two_armature_bones b)) = ''upperarm_l'') [1, 0] = Some 0
    \<and> findBoneByPattern two_armature_bones [1, 0] Key_leftUpperArm = Some 0"
proof -
  have t: "(0::nat) \<in> set (traversed_bones two_armature_model)"
    by (simp add: traversed_bones_def two_armature_model_def)
  have n: "lowered_name (mount two_armature_bones) 0 = ''upperarm_l''"
    "lowered_name (mount two_armature_bones) 1 = ''upperarm_l_twist01''"
    by (simp_all add: lowered_name_def mount_def two_armature_bones_def) code_simp+
  have f: "List.find (\<lambda>b. toLowerCase (bone_name (two_armature_bones b)) = ''upperarm_l'') [1, 0] = Some 0"
    using n by (simp add: lowered_name_def mount_def)
  have m: "''twist'' \<in> set upper_arm_markers"
    by (simp add: upper_arm_markers_def)
  show ?thesis
    using t n f m
      upper_arm_resolution_rejects_markers [where st = "mount two_armature_bones"
        and g = two_armature_model and bs = two_armature_bones and skeleton = "[1, 0]"]
    by blast
qed

text \<open>
  A bone named \<open>L_UpperArm_Bicep\<close> is what \<open>findBoneByPattern\<close> returns for
  \<open>leftUpperArm\<close> when it is the only candidate, although its name contains \<open>bicep\<close>.
\<close>

lemma name_bicep:
  "toLowerCase ''L_UpperArm_Bicep'' = ''l_upperarm_bicep''"
  "includesStr ''l_upperarm_bicep'' ''bicep''"
  by code_simp+

lemma bicep_found: "findBoneByPattern bicep_bones [0] Key_leftUpperArm = Some 0"
  by code_simp

theorem pattern_resolver_binds_bicep_counterexample:
  "findBoneByPattern bicep_bones [0] Key_leftUpperArm = Some 0
    \<and> includesStr (toLowerCase (bone_name (bicep_bones 0))) ''bicep''"
  by (simp add: bicep_found bicep_bones_def name_bicep)

section \<open>Manual and tracked paths\<close>

lemma agree_off_refl: "agree_off X st st"
  by (simp add: agree_off_def)

lemma agree_off_trans: "agree_off X s t \<Longrightarrow> agree_off X t u \<Longrightarrow> agree_off X s u"
  by (simp add: agree_off_def)

lemma agree_off_sym: "agree_off X s t \<Longrightarrow> agree_off X t s"
  by (simp add: agree_off_def)

lemma agree_off_apply:
  assumes "agree_off X st st'"
  shows "agree_off X (applyArmRotation a bns k x y z st) (applyArmRotation a bns k x y z st')"
  using assms
  by (simp add: agree_off_def applyArmRotation_smooth applyArmRotation_frame applyArmRotation_bone)

lemma agree_off_swap:
  assumes "k \<noteq> k'"
  shows "agree_off (set bns \<inter> set bns')
           (applyArmRotation a bns k x y z (applyArmRotation a bns' k' x' y' z' st))
           (applyArmRotation a bns' k' x' y' z' (applyArmRotation a bns k x y z st))"
  using assms
  by (auto simp add: agree_off_def applyArmRotation_smooth applyArmRotation_frame
      applyArmRotation_bone fun_upd_twist)

lemma agree_off_place:
  "agree_off X st (place_by_shoulders mirrored l r (st\<lparr> frameRef := n \<rparr>))"
  by (simp add: agree_off_def place_by_shoulders_def Let_def)

lemma agree_off_face_forward:
  "agree_off X (st\<lparr> model_rotation := e \<rparr>) st' = agree_off X st st'"
  by (simp add: agree_off_def)

lemma manualMode_agree:
  assumes "sliders_match dv ratioL ratioR"
  shows "agree_off {} (manualMode dv ab st)
           (applyArmRotation (smoothingFactor dv) (lowerarm_r ab) ''lowerarm_r'' 0 0 0
             (applyArmRotation (smoothingFactor dv) (upperarm_r ab) ''upperarm_r'' 0 (mapToYRotation ratioR) 0
               (applyArmRotation (smoothingFactor dv) (lowerarm_l ab) ''lowerarm_l'' 0 0 0
                 (applyArmRotation (smoothingFactor dv) (upperarm_l ab) ''upperarm_l'' 0 (mapToYRotation ratioL) 0 st))))"
proof -
  from assms have eqs:
    "leftUpperArmX dv * DEG2RAD = 0" "leftUpperArmY dv * DEG2RAD = mapToYRotation ratioL"
    "leftUpperArmZ dv * DEG2RAD = 0" "rightUpperArmX dv * DEG2RAD = 0"
    "rightUpperArmY dv * DEG2RAD = mapToYRotation ratioR" "rightUpperArmZ dv * DEG2RAD = 0"
    "leftLowerArmX dv * DEG2RAD = 0" "leftLowerArmY dv * DEG2RAD = 0" "leftLowerArmZ dv * DEG2RAD = 0"
    "rightLowerArmX dv * DEG2RAD = 0" "rightLowerArmY dv * DEG2RAD = 0" "rightLowerArmZ dv * DEG2RAD = 0"
    unfolding sliders_match_def by blast+
  show ?thesis
    unfolding manualMode_def Let_def eqs agree_off_face_forward by (rule agree_off_refl)
qed

lemma trackingMode_agree:
  assumes "of_landmarks calcArmRatio
             (at_index pose (if mirrored then RIGHT_SHOULDER else LEFT_SHOULDER))
             (at_index pose (if mirrored then RIGHT_ELBOW else LEFT_ELBOW)) = Some ratioL"
    and "of_landmarks calcArmRatio
             (at_index pose (if mirrored then LEFT_SHOULDER else RIGHT_SHOULDER))
             (at_index pose (if mirrored then LEFT_ELBOW else RIGHT_ELBOW)) = Some ratioR"
  shows "agree_off {}
           (applyArmRotation a (lowerarm_r ab) ''lowerarm_r'' 0 0 0
             (applyArmRotation a (lowerarm_l ab) ''lowerarm_l'' 0 0 0
               (applyArmRotation a (upperarm_r ab) ''upperarm_r'' 0 (mapToYRotation ratioR) 0
                 (applyArmRotation a (upperarm_l ab) ''upperarm_l'' 0 (mapToYRotation ratioL) 0 st))))
           (outcome_state (trackingMode mirrored a ab pose st))"
proof -
  from assms obtain l r where lr:
    "at_index pose LEFT_SHOULDER = Some l" "at_index pose RIGHT_SHOULDER = Some r"
    by (cases mirrored) (auto simp add: of_landmarks_def split: option.splits)
  have "outcome_state (trackingMode mirrored a ab pose st) =
          applyArmRotation a (lowerarm_r ab) ''lowerarm_r'' 0 0 0
             (applyArmRotation a (lowerarm_l ab) ''lowerarm_l'' 0 0 0
               (applyArmRotation a (upperarm_r ab) ''upperarm_r'' 0 (mapToYRotation ratioR) 0
                 (applyArmRotation a (upperarm_l ab) ''upperarm_l'' 0 (mapToYRotation ratioL) 0
                   (place_by_shoulders mirrored l r (st\<lparr> frameRef := frameRef st + 1 \<rparr>)))))"
    using assms lr by (simp add: trackingMode_def arms_by_ratio_def Let_def of_landmarks_def)
  then show ?thesis
    by (simp add: agree_off_apply agree_off_place)
qed

lemma middle_swap_agree:
  "agree_off (set bl \<inter> set br)
     (applyArmRotation a b4 k4 x4 y4 z4
       (applyArmRotation a br ''upperarm_r'' xr yr zr
         (applyArmRotation a bl ''lowerarm_l'' xl yl zl st)))
     (applyArmRotation a b4 k4 x4 y4 z4
       (applyArmRotation a bl ''lowerarm_l'' xl yl zl
         (applyArmRotation a br ''upperarm_r'' xr yr zr st)))"
proof -
  have "''upperarm_r'' \<noteq> ''lowerarm_l''" by simp
  from agree_off_swap [OF this] have
    "agree_off (set br \<inter> set bl)
       (applyArmRotation a br ''upperarm_r'' xr yr zr (applyArmRotation a bl ''lowerarm_l'' xl yl zl st))
       (applyArmRotation a bl ''lowerarm_l'' xl yl zl (applyArmRotation a br ''upperarm_r'' xr yr zr st))" .
  then show ?thesis
    by (simp add: agree_off_apply Int_commute)
qed

lemma agree_off_mono: "agree_off X s t \<Longrightarrow> X \<subseteq> Y \<Longrightarrow> agree_off Y s t"
  by (auto simp add: agree_off_def)

lemma sliders_match_flags:
  "sliders_match (dv\<lparr> useManualRotations := m \<rparr>) l r = sliders_match dv l r"
  "sliders_match (dv\<lparr> enableTracking := t \<rparr>) l r = sliders_match dv l r"
  by (simp_all add: sliders_match_def)

text \<open>
  C8, as the code has it. With manual overrides on, the calibrated variant ignores the
  landmark frame and passes the slider rotations through the same applier (the same
  smoothing update and the same write to every bound bone) as tracking mode. When the
  sliders supply the rotations that tracking computes from the frame, one update from the
  same state leaves the same smoothing state, the same rest map and the same rotation on
  every bone, except possibly a bone bound under both \<open>lowerarm_l\<close> and
  \<open>upperarm_r\<close>: the two modes issue those two writes in opposite order.
\<close>

theorem manual_and_tracked_agree:
  assumes "initializedRef st" and "armBonesRef st = Some ab"
    and "of_landmarks calcArmRatio
           (at_index pose (if mirrored then RIGHT_SHOULDER else LEFT_SHOULDER))
           (at_index pose (if mirrored then RIGHT_ELBOW else LEFT_ELBOW)) = Some ratioL"
    and "of_landmarks calcArmRatio
           (at_index pose (if mirrored then LEFT_SHOULDER else RIGHT_SHOULDER))
           (at_index pose (if mirrored then LEFT_ELBOW else RIGHT_ELBOW)) = Some ratioR"
    and "sliders_match dv ratioL ratioR"
  shows "agree_off (set (lowerarm_l ab) \<inter> set (upperarm_r ab))
           (outcome_state (frameEffect_calibrated (Some g) any_landmarks mirrored
              (dv\<lparr> useManualRotations := True \<rparr>) st))
           (outcome_state (frameEffect_calibrated (Some g) (Some (Results (Some pose))) mirrored
              (dv\<lparr> enableTracking := True, useManualRotations := False \<rparr>) st))"
proof -
  let ?a = "smoothingFactor dv"
  let ?M = "manualMode (dv\<lparr> useManualRotations := True \<rparr>) ab st"
  let ?T = "outcome_state (trackingMode mirrored ?a ab pose st)"
  let ?UL = "applyArmRotation ?a (upperarm_l ab) ''upperarm_l'' 0 (mapToYRotation ratioL) 0 st"
  let ?X = "set (lowerarm_l ab) \<inter> set (upperarm_r ab)"
  have m: "outcome_state (frameEffect_calibrated (Some g) any_landmarks mirrored
              (dv\<lparr> useManualRotations := True \<rparr>) st) = ?M"
    using assms(1,2) by (simp add: frameEffect_calibrated_def)
  have t: "outcome_state (frameEffect_calibrated (Some g) (Some (Results (Some pose))) mirrored
              (dv\<lparr> enableTracking := True, useManualRotations := False \<rparr>) st) = ?T"
    using assms(1,2) by (simp add: frameEffect_calibrated_def pose_of_def)
  have "sliders_match (dv\<lparr> useManualRotations := True \<rparr>) ratioL ratioR"
    using assms(5) by (simp add: sliders_match_flags)
  then have "agree_off {} ?M
      (applyArmRotation ?a (lowerarm_r ab) ''lowerarm_r'' 0 0 0
        (applyArmRotation ?a (upperarm_r ab) ''upperarm_r'' 0 (mapToYRotation ratioR) 0
          (applyArmRotation ?a (lowerarm_l ab) ''lowerarm_l'' 0 0 0 ?UL)))"
    using manualMode_agree [of "dv\<lparr> useManualRotations := True \<rparr>" ratioL ratioR ab st] by simp
  then have 1: "agree_off ?X ?M
      (applyArmRotation ?a (lowerarm_r ab) ''lowerarm_r'' 0 0 0
        (applyArmRotation ?a (upperarm_r ab) ''upperarm_r'' 0 (mapToYRotation ratioR) 0
          (applyArmRotation ?a (lowerarm_l ab) ''lowerarm_l'' 0 0 0 ?UL)))"
    by (rule agree_off_mono) simp
  have 2: "agree_off ?X
      (applyArmRotation ?a (lowerarm_r ab) ''lowerarm_r'' 0 0 0
        (applyArmRotation ?a (upperarm_r ab) ''upperarm_r'' 0 (mapToYRotation ratioR) 0
          (applyArmRotation ?a (lowerarm_l ab) ''lowerarm_l'' 0 0 0 ?UL)))
      (applyArmRotation ?a (lowerarm_r ab) ''lowerarm_r'' 0 0 0
        (applyArmRotation ?a (lowerarm_l ab) ''lowerarm_l'' 0 0 0
          (applyArmRotation ?a (upperarm_r ab) ''upperarm_r'' 0 (mapToYRotation ratioR) 0 ?UL)))"
    by (rule middle_swap_agree)
  have 3: "agree_off ?X
      (applyArmRotation ?a (lowerarm_r ab) ''lowerarm_r'' 0 0 0
        (applyArmRotation ?a (lowerarm_l ab) ''lowerarm_l'' 0 0 0
          (applyArmRotation ?a (upperarm_r ab) ''upperarm_r'' 0 (mapToYRotation ratioR) 0 ?UL)))
      ?T"
    using trackingMode_agree [OF assms(3,4), of ?a ab st] by (rule agree_off_mono) simp
  from agree_off_trans [OF 1 agree_off_trans [OF 2 3]] show ?thesis
    by (simp only: m t)
qed

lemma arms_down_pose_at:
  "at_index arms_down_pose LEFT_SHOULDER = Some (mark (3 / 10) (4 / 10))"
  "at_index arms_down_pose RIGHT_SHOULDER = Some (mark (7 / 10) (4 / 10))"
  "at_index arms_down_pose LEFT_ELBOW = Some (mark (3 / 10) (6 / 10))"
  "at_index arms_down_pose RIGHT_ELBOW = Some (mark (7 / 10) (6 / 10))"
  by (simp_all add: at_index_def arms_down_pose_def LEFT_SHOULDER_def RIGHT_SHOULDER_def
      LEFT_ELBOW_def RIGHT_ELBOW_def)

lemma arms_down_ratio: "ys < ye \<Longrightarrow> calcArmRatio (mark a ys) (mark a ye) = 0"
  by (simp add: calcArmRatio_def mark_def atan2_def Let_def)

lemma arms_down_ratios:
  "of_landmarks calcArmRatio
     (at_index arms_down_pose (if mirrored then RIGHT_SHOULDER else LEFT_SHOULDER))
     (at_index arms_down_pose (if mirrored then RIGHT_ELBOW else LEFT_ELBOW)) = Some 0"
  "of_landmarks calcArmRatio
     (at_index arms_down_pose (if mirrored then LEFT_SHOULDER else RIGHT_SHOULDER))
     (at_index arms_down_pose (if mirrored then LEFT_ELBOW else RIGHT_ELBOW)) = Some 0"
  by (simp_all add: of_landmarks_def arms_down_pose_at arms_down_ratio)

lemma mapToYRotation_0: "mapToYRotation 0 = 13 * DEG2RAD"
  by (simp add: mapToYRotation_def Y_ROTATION_ARMS_DOWN_def)

lemma arms_down_sliders_match: "sliders_match arms_down_sliders 0 0"
  by (simp add: sliders_match_def arms_down_sliders_def defaultValues_def mapToYRotation_0)

theorem manual_and_tracked_agree_witness:
  "initializedRef one_arm_rig
    \<and> armBonesRef one_arm_rig = Some \<lparr> upperarm_l = [0], upperarm_r = [], lowerarm_l = [], lowerarm_r = [] \<rparr>
    \<and> of_landmarks calcArmRatio (at_index arms_down_pose LEFT_SHOULDER) (at_index arms_down_pose LEFT_ELBOW) = Some 0
    \<and> of_landmarks calcArmRatio (at_index arms_down_pose RIGHT_SHOULDER) (at_index arms_down_pose RIGHT_ELBOW) = Some 0
    \<and> sliders_match arms_down_sliders 0 0
    \<and> smoothRotations (outcome_state (frameEffect_calibrated (Some one_arm_model) None False
            (arms_down_sliders\<lparr> useManualRotations := True \<rparr>) one_arm_rig))
        = smoothRotations (outcome_state (frameEffect_calibrated (Some one_arm_model) arms_down_frame False
            (arms_down_sliders\<lparr> enableTracking := True, useManualRotations := False \<rparr>) one_arm_rig))
    \<and> bones (outcome_state (frameEffect_calibrated (Some one_arm_model) None False
            (arms_down_sliders\<lparr> useManualRotations := True \<rparr>) one_arm_rig)) 0
        = bones (outcome_state (frameEffect_calibrated (Some one_arm_model) arms_down_frame False
            (arms_down_sliders\<lparr> enableTracking := True, useManualRotations := False \<rparr>) one_arm_rig)) 0"
proof -
  let ?ab = "\<lparr> upperarm_l = [0], upperarm_r = [], lowerarm_l = [], lowerarm_r = [] \<rparr>"
  have h1: "initializedRef one_arm_rig" and h2: "armBonesRef one_arm_rig = Some ?ab"
    by (simp_all add: one_arm_rig_simps)
  have r1: "of_landmarks calcArmRatio
           (at_index arms_down_pose (if False then RIGHT_SHOULDER else LEFT_SHOULDER))
           (at_index arms_down_pose (if False then RIGHT_ELBOW else LEFT_ELBOW)) = Some 0"
    and r2: "of_landmarks calcArmRatio
           (at_index arms_down_pose (if False then LEFT_SHOULDER else RIGHT_SHOULDER))
           (at_index arms_down_pose (if False then LEFT_ELBOW else RIGHT_ELBOW)) = Some 0"
    by (rule arms_down_ratios)+
  note sm = arms_down_sliders_match
  show ?thesis
    using h1 h2 r1 r2 sm
      manual_and_tracked_agree [OF h1 h2 r1 r2 sm, where g = one_arm_model and any_landmarks = None]
    by (simp add: agree_off_def arms_down_frame_def)
qed

lemma name_crossed:
  "\<not> matches_upperarm ''upperarm_l'' (toLowerCase ''lowerarm_l_upperarm_r'')"
  "matches_upperarm ''upperarm_r'' (toLowerCase ''lowerarm_l_upperarm_r'')"
  "matches_lowerarm ''lowerarm_l'' (toLowerCase ''lowerarm_l_upperarm_r'')"
  "\<not> matches_lowerarm ''lowerarm_r'' (toLowerCase ''lowerarm_l_upperarm_r'')"
  by code_simp+

lemma crossed_bound:
  "find_arm_bones (mount crossed_bones) crossed_model =
     \<lparr> upperarm_l = [], upperarm_r = [0], lowerarm_l = [0], lowerarm_r = [] \<rparr>"
  by (simp add: find_arm_bones_def traversed_bones_def crossed_model_def lowered_name_def
      mount_def crossed_bones_def name_crossed)

lemma crossed_rig_simps:
  "armBonesRef crossed_rig = Some \<lparr> upperarm_l = [], upperarm_r = [0], lowerarm_l = [0], lowerarm_r = [] \<rparr>"
  "restRotationsRef crossed_rig = [''lowerarm_l_upperarm_r'' \<mapsto> zero_euler]"
  "smoothRotations crossed_rig = Map.empty"
  "initializedRef crossed_rig"
  "bones crossed_rig = crossed_bones"
  by (simp_all add: crossed_rig_def initEffect_def crossed_bound allBones_def Let_def)
    (simp_all add: mount_def crossed_bones_def)

text \<open>
  A rig whose bone 0 is named \<open>lowerarm_l_upperarm_r\<close> binds it under both keys.
  With the sliders at the arms-down angle and a frame with both arms down, the inputs
  of the two modes are equal; after one update from the freshly bound rig, manual mode
  leaves bone 0 at 13 degrees about Y and tracking mode leaves it at its rest rotation.
\<close>

theorem manual_and_tracked_differ_counterexample:
  "sliders_match arms_down_sliders 0 0
    \<and> of_landmarks calcArmRatio (at_index arms_down_pose LEFT_SHOULDER) (at_index arms_down_pose LEFT_ELBOW) = Some 0
    \<and> of_landmarks calcArmRatio (at_index arms_down_pose RIGHT_SHOULDER) (at_index arms_down_pose RIGHT_ELBOW) = Some 0
    \<and> bone_rotation (bones (outcome_state (frameEffect_calibrated (Some crossed_model) arms_down_frame False
            (arms_down_sliders\<lparr> useManualRotations := True \<rparr>) crossed_rig)) 0)
        = \<lparr> euler_x = 0, euler_y = 13 * DEG2RAD, euler_z = 0 \<rparr>
    \<and> bone_rotation (bones (outcome_state (frameEffect_calibrated (Some crossed_model) arms_down_frame False
            arms_down_sliders crossed_rig)) 0)
        = \<lparr> euler_x = 0, euler_y = 0, euler_z = 0 \<rparr>
    \<and> 13 * DEG2RAD \<noteq> 0"
proof -
  have r: "of_landmarks calcArmRatio (at_index arms_down_pose LEFT_SHOULDER) (at_index arms_down_pose LEFT_ELBOW) = Some 0"
    "of_landmarks calcArmRatio (at_index arms_down_pose RIGHT_SHOULDER) (at_index arms_down_pose RIGHT_ELBOW) = Some 0"
    using arms_down_ratios [of False] by simp_all
  have m: "bone_rotation (bones (outcome_state (frameEffect_calibrated (Some crossed_model) arms_down_frame False
            (arms_down_sliders\<lparr> useManualRotations := True \<rparr>) crossed_rig)) 0)
        = \<lparr> euler_x = 0, euler_y = 13 * DEG2RAD, euler_z = 0 \<rparr>"
    by (simp add: frameEffect_calibrated_def crossed_rig_simps manualMode_def Let_def
        arms_down_sliders_def defaultValues_def applyArmRotation_bone applyArmRotation_smooth
        applyArmRotation_frame smoothed_def write_rest_xyz_def crossed_bones_def zero_euler_def)
  have t: "bone_rotation (bones (outcome_state (frameEffect_calibrated (Some crossed_model) arms_down_frame False
            arms_down_sliders crossed_rig)) 0)
        = \<lparr> euler_x = 0, euler_y = 0, euler_z = 0 \<rparr>"
    using r
    by (simp add: frameEffect_calibrated_def crossed_rig_simps trackingMode_def arms_by_ratio_def
        Let_def arms_down_frame_def pose_of_def arms_down_pose_at of_landmarks_def
        arms_down_sliders_def defaultValues_def applyArmRotation_bone applyArmRotation_smooth
        applyArmRotation_frame smoothed_def write_rest_xyz_def crossed_bones_def zero_euler_def
        place_by_shoulders_def)
  have "13 * DEG2RAD \<noteq> 0" by (simp add: DEG2RAD_def)
  with r m t arms_down_sliders_match show ?thesis by blast
qed

section \<open>Single-axis ratio mapping\<close>

lemma atan2_range:
  assumes "0 \<le> x"
  shows "- (pi / 2) \<le> atan2 y x \<and> atan2 y x \<le> pi / 2"
proof (cases "x = 0")
  case True
  then show ?thesis by (simp add: atan2_def)
next
  case False
  with assms have "0 < x" by simp
  then have "atan2 y x = arctan (y / x)" by (simp add: atan2_def)
  with arctan_lbound [of "y / x"] arctan_ubound [of "y / x"] show ?thesis by simp
qed

lemma calcVerticalAngle_range:
  "- (pi / 2) \<le> calcVerticalAngle s e \<and> calcVerticalAngle s e \<le> pi / 2"
  unfolding calcVerticalAngle_def Let_def by (rule atan2_range) simp

lemma calcArmRatio_angle:
  "calcArmRatio s e = max 0 (min 1 ((calcVerticalAngle s e + pi / 2) / (pi / 2)))"
  by (simp add: calcArmRatio_def calcVerticalAngle_def Let_def)

lemma calcArmRatio_linear:
  assumes "calcVerticalAngle s e \<le> 0"
  shows "calcArmRatio s e = (calcVerticalAngle s e + pi / 2) / (pi / 2)"
proof -
  let ?r = "(calcVerticalAngle s e + pi / 2) / (pi / 2)"
  have "0 \<le> calcVerticalAngle s e + pi / 2"
    using calcVerticalAngle_range [of s e] by simp
  then have lo: "0 \<le> ?r" by simp
  have "calcVerticalAngle s e + pi / 2 \<le> pi / 2" using assms by simp
  then have hi: "?r \<le> 1" by simp
  show ?thesis unfolding calcArmRatio_angle using lo hi by simp
qed

lemma calcArmRatio_raised:
  assumes "0 \<le> calcVerticalAngle s e"
  shows "calcArmRatio s e = 1"
proof -
  let ?r = "(calcVerticalAngle s e + pi / 2) / (pi / 2)"
  have "pi / 2 \<le> calcVerticalAngle s e + pi / 2" using assms by simp
  then have "1 \<le> ?r" by simp
  then show ?thesis unfolding calcArmRatio_angle by simp
qed

lemma calcArmRatio_range: "0 \<le> calcArmRatio s e \<and> calcArmRatio s e \<le> 1"
  by (simp add: calcArmRatio_def Let_def)

lemma mapToYRotation_lerp:
  "mapToYRotation r = ((1 - r) * 13 + r * (- 48)) * DEG2RAD"
  by (simp add: mapToYRotation_def Y_ROTATION_ARMS_DOWN_def Y_ROTATION_T_POSE_def Let_def algebra_simps)

lemma calcArmRatio_straight_down:
  assumes "lm_x e = lm_x s" and "lm_y s < lm_y e"
  shows "calcArmRatio s e = 0"
  using assms by (simp add: calcArmRatio_def atan2_def Let_def)

lemma frameEffect_calibrated_refs:
  "initializedRef (outcome_state (frameEffect_calibrated model landmarks mirrored dv st)) = initializedRef st"
  "armBonesRef (outcome_state (frameEffect_calibrated model landmarks mirrored dv st)) = armBonesRef st"
  by (simp_all add: frameEffect_calibrated_def trackingMode_def arms_by_ratio_def Let_def
      place_by_shoulders_def manualMode_def applyArmRotation_frame split: option.split prod.split)

lemma feed_refs:
  "initializedRef (feed n model landmarks mirrored dv st) = initializedRef st"
  "armBonesRef (feed n model landmarks mirrored dv st) = armBonesRef st"
  by (induction n) (simp_all add: frameEffect_calibrated_refs)

lemma tracked_smooth_keys:
  "smoothRotations
     (applyArmRotation a b4 ''lowerarm_r'' x4 y4 z4
       (applyArmRotation a b3 ''lowerarm_l'' x3 y3 z3
         (applyArmRotation a b2 ''upperarm_r'' x2 y2 z2
           (applyArmRotation a b1 ''upperarm_l'' x1 y1 z1 st)))) ''upperarm_l''
     = (if b1 = [] then smoothRotations st ''upperarm_l''
        else Some (smoothed a (smoothRotations st ''upperarm_l'') x1 y1 z1))"
  "smoothRotations
     (applyArmRotation a b4 ''lowerarm_r'' x4 y4 z4
       (applyArmRotation a b3 ''lowerarm_l'' x3 y3 z3
         (applyArmRotation a b2 ''upperarm_r'' x2 y2 z2
           (applyArmRotation a b1 ''upperarm_l'' x1 y1 z1 st)))) ''upperarm_r''
     = (if b2 = [] then smoothRotations st ''upperarm_r''
        else Some (smoothed a (smoothRotations st ''upperarm_r'') x2 y2 z2))"
  by (simp_all add: applyArmRotation_smooth)

lemma tracking_frame_driven_key:
  assumes "initializedRef st" and "armBonesRef st = Some ab"
    and "enableTracking dv" and "\<not> useManualRotations dv"
    and "RIGHT_ELBOW < length pose"
  shows "smoothRotations
           (outcome_state (frameEffect_calibrated (Some g) (Some (Results (Some pose))) mirrored dv st))
           (if mirrored then ''upperarm_r'' else ''upperarm_l'')
         = (if (if mirrored then upperarm_r ab else upperarm_l ab) = []
            then smoothRotations st (if mirrored then ''upperarm_r'' else ''upperarm_l'')
            else Some (smoothed (smoothingFactor dv)
                   (smoothRotations st (if mirrored then ''upperarm_r'' else ''upperarm_l''))
                   0 (mapToYRotation (calcArmRatio (pose ! LEFT_SHOULDER) (pose ! LEFT_ELBOW))) 0))"
proof -
  have len: "LEFT_SHOULDER < length pose" "RIGHT_SHOULDER < length pose"
    "LEFT_ELBOW < length pose" "RIGHT_ELBOW < length pose"
    using assms(5) by (simp_all add: LEFT_SHOULDER_def RIGHT_SHOULDER_def LEFT_ELBOW_def RIGHT_ELBOW_def)
  let ?l = "calcArmRatio (pose ! (if mirrored then RIGHT_SHOULDER else LEFT_SHOULDER))
              (pose ! (if mirrored then RIGHT_ELBOW else LEFT_ELBOW))"
  let ?r = "calcArmRatio (pose ! (if mirrored then LEFT_SHOULDER else RIGHT_SHOULDER))
              (pose ! (if mirrored then LEFT_ELBOW else RIGHT_ELBOW))"
  have l: "of_landmarks calcArmRatio
             (at_index pose (if mirrored then RIGHT_SHOULDER else LEFT_SHOULDER))
             (at_index pose (if mirrored then RIGHT_ELBOW else LEFT_ELBOW)) = Some ?l"
    and r: "of_landmarks calcArmRatio
             (at_index pose (if mirrored then LEFT_SHOULDER else RIGHT_SHOULDER))
             (at_index pose (if mirrored then LEFT_ELBOW else RIGHT_ELBOW)) = Some ?r"
    using len by (simp_all add: of_landmarks_def at_index_def)
  have "outcome_state (frameEffect_calibrated (Some g) (Some (Results (Some pose))) mirrored dv st)
          = outcome_state (trackingMode mirrored (smoothingFactor dv) ab pose st)"
    using assms by (simp add: frameEffect_calibrated_def pose_of_def)
  moreover have "smoothRotations (outcome_state (trackingMode mirrored (smoothingFactor dv) ab pose st))
      = smoothRotations
          (applyArmRotation (smoothingFactor dv) (lowerarm_r ab) ''lowerarm_r'' 0 0 0
            (applyArmRotation (smoothingFactor dv) (lowerarm_l ab) ''lowerarm_l'' 0 0 0
              (applyArmRotation (smoothingFactor dv) (upperarm_r ab) ''upperarm_r'' 0 (mapToYRotation ?r) 0
                (applyArmRotation (smoothingFactor dv) (upperarm_l ab) ''upperarm_l'' 0 (mapToYRotation ?l) 0 st))))"
    using trackingMode_agree [OF l r, of "smoothingFactor dv" ab st] by (simp add: agree_off_def)
  ultimately show ?thesis
    by (cases mirrored) (simp_all only: tracked_smooth_keys if_True if_False)
qed

lemma smoothed_first: "smoothed a None x y z = \<lparr> euler_x = x, euler_y = y, euler_z = z \<rparr>"
  by (simp add: smoothed_def)

lemma smoothed_at_target:
  "smoothed a (Some \<lparr> euler_x = x, euler_y = y, euler_z = z \<rparr>) x y z
     = \<lparr> euler_x = x, euler_y = y, euler_z = z \<rparr>"
  by (simp add: smoothed_def smoothAxis_fixed)

lemma feed_driven_key:
  assumes "initializedRef st" and "armBonesRef st = Some ab"
    and "enableTracking dv" and "\<not> useManualRotations dv"
    and "RIGHT_ELBOW < length pose"
    and "(if mirrored then upperarm_r ab else upperarm_l ab) \<noteq> []"
    and "smoothRotations st (if mirrored then ''upperarm_r'' else ''upperarm_l'') = None"
  shows "smoothRotations (feed (Suc n) (Some g) (Some (Results (Some pose))) mirrored dv st)
           (if mirrored then ''upperarm_r'' else ''upperarm_l'')
         = Some \<lparr> euler_x = 0,
                  euler_y = mapToYRotation (calcArmRatio (pose ! LEFT_SHOULDER) (pose ! LEFT_ELBOW)),
                  euler_z = 0 \<rparr>"
proof (induction n)
  case 0
  show ?case
    using tracking_frame_driven_key [OF assms(1-5), of g mirrored] assms(6,7)
    by (simp add: smoothed_first)
next
  case (Suc n)
  let ?s = "feed (Suc n) (Some g) (Some (Results (Some pose))) mirrored dv st"
  have i: "initializedRef ?s" and a: "armBonesRef ?s = Some ab"
    using assms(1,2) by (simp_all only: feed_refs)
  have "feed (Suc (Suc n)) (Some g) (Some (Results (Some pose))) mirrored dv st
      = outcome_state (frameEffect_calibrated (Some g) (Some (Results (Some pose))) mirrored dv ?s)"
    by simp
  then show ?case
    using tracking_frame_driven_key [OF i a assms(3-5), of g mirrored] assms(6) Suc.IH
    by (simp only: smoothed_at_target if_False)
qed

lemma smoothed_entry:
  "smoothed a (Some s) x y z =
     \<lparr> euler_x = smoothAxis a x (euler_x s), euler_y = smoothAxis a y (euler_y s),
       euler_z = smoothAxis a z (euler_z s) \<rparr>"
  by (simp add: smoothed_def)

lemma feed_driven_key_from_entry:
  assumes "initializedRef st" and "armBonesRef st = Some ab"
    and "enableTracking dv" and "\<not> useManualRotations dv"
    and "RIGHT_ELBOW < length pose"
    and "(if mirrored then upperarm_r ab else upperarm_l ab) \<noteq> []"
    and "smoothRotations st (if mirrored then ''upperarm_r'' else ''upperarm_l'') = Some s"
  shows "smoothRotations (feed n (Some g) (Some (Results (Some pose))) mirrored dv st)
           (if mirrored then ''upperarm_r'' else ''upperarm_l'')
         = Some \<lparr> euler_x = (smoothAxis (smoothingFactor dv) 0 ^^ n) (euler_x s),
                  euler_y = (smoothAxis (smoothingFactor dv)
                               (mapToYRotation (calcArmRatio (pose ! LEFT_SHOULDER) (pose ! LEFT_ELBOW))) ^^ n)
                              (euler_y s),
                  euler_z = (smoothAxis (smoothingFactor dv) 0 ^^ n) (euler_z s) \<rparr>"
proof (induction n)
  case 0
  show ?case using assms(7) by simp
next
  case (Suc n)
  let ?s = "feed n (Some g) (Some (Results (Some pose))) mirrored dv st"
  have i: "initializedRef ?s" and a: "armBonesRef ?s = Some ab"
    using assms(1,2) by (simp_all only: feed_refs)
  have "feed (Suc n) (Some g) (Some (Results (Some pose))) mirrored dv st
      = outcome_state (frameEffect_calibrated (Some g) (Some (Results (Some pose))) mirrored dv ?s)"
    by simp
  then show ?case
    using tracking_frame_driven_key [OF i a assms(3-5), of g mirrored] assms(6) Suc.IH
    by (simp add: smoothed_entry)
qed

lemma smoothAxis_iter_closed: "(smoothAxis a t ^^ n) s = t + (1 - a) ^ n * (s - t)"
  using smoothAxis_iter_dist [where a = a and t = t and n = n and s = s] by simp

lemma arms_down_scenario_ratio:
  assumes "arms_down_scenario st ab dv pose mirrored"
  shows "mapToYRotation (calcArmRatio (pose ! LEFT_SHOULDER) (pose ! LEFT_ELBOW)) = 13 * DEG2RAD"
proof -
  from assms have "calcArmRatio (pose ! LEFT_SHOULDER) (pose ! LEFT_ELBOW) = 0"
    unfolding arms_down_scenario_def by (intro calcArmRatio_straight_down) simp_all
  then show ?thesis by (simp add: mapToYRotation_0)
qed

lemma arms_down_scenario_fresh:
  assumes sc: "arms_down_scenario st ab dv pose mirrored"
    and none: "smoothRotations st (if mirrored then ''upperarm_r'' else ''upperarm_l'') = None"
    and n: "1 \<le> n"
  shows "smoothRotations (feed n (Some g) (Some (Results (Some pose))) mirrored dv st)
           (if mirrored then ''upperarm_r'' else ''upperarm_l'')
         = Some \<lparr> euler_x = 0, euler_y = 13 * DEG2RAD, euler_z = 0 \<rparr>"
proof -
  from n obtain m where m: "n = Suc m" by (cases n) simp_all
  from sc have h: "initializedRef st" "armBonesRef st = Some ab" "enableTracking dv"
    "\<not> useManualRotations dv" "RIGHT_ELBOW < length pose"
    "(if mirrored then upperarm_r ab else upperarm_l ab) \<noteq> []"
    unfolding arms_down_scenario_def by blast+
  from feed_driven_key [OF h none, of m g] show ?thesis
    by (simp only: m arms_down_scenario_ratio [OF sc])
qed

lemma arms_down_scenario_entry:
  assumes sc: "arms_down_scenario st ab dv pose mirrored"
    and some: "smoothRotations st (if mirrored then ''upperarm_r'' else ''upperarm_l'') = Some s"
  shows "smoothRotations (feed n (Some g) (Some (Results (Some pose))) mirrored dv st)
           (if mirrored then ''upperarm_r'' else ''upperarm_l'')
         = Some \<lparr> euler_x = (smoothAxis (smoothingFactor dv) 0 ^^ n) (euler_x s),
                  euler_y = (smoothAxis (smoothingFactor dv) (13 * DEG2RAD) ^^ n) (euler_y s),
                  euler_z = (smoothAxis (smoothingFactor dv) 0 ^^ n) (euler_z s) \<rparr>"
proof -
  from sc have h: "initializedRef st" "armBonesRef st = Some ab" "enableTracking dv"
    "\<not> useManualRotations dv" "RIGHT_ELBOW < length pose"
    "(if mirrored then upperarm_r ab else upperarm_l ab) \<noteq> []"
    unfolding arms_down_scenario_def by blast+
  from feed_driven_key_from_entry [OF h some, of n g] show ?thesis
    by (simp only: arms_down_scenario_ratio [OF sc])
qed

lemma five_updates_at_035:
  "\<bar>(smoothAxis (35 / 100) t ^^ 5) y - t\<bar> = (65 / 100) ^ 5 * \<bar>y - t\<bar>"
proof -
  have "\<bar>(smoothAxis (35 / 100) t ^^ 5) y - t\<bar> = \<bar>1 - 35 / 100\<bar> ^ 5 * \<bar>y - t\<bar>"
    by (rule smoothAxis_iter_abs)
  also have "\<bar>1 - 35 / 100 :: real\<bar> = 65 / 100" by simp
  finally show ?thesis .
qed

text \<open>
  C1, as the code has it. The ratio function of the calibrated variant takes the vertical
  arm angle \<open>atan2 (- dy) \<bar>dx\<bar>\<close>, which is never below \<open>- pi / 2\<close>, maps it linearly so
  that \<open>- pi / 2\<close> gives 0 and 0 gives 1, and clamps the result to [0, 1]: on angles up to
  0 the ratio is the linear value itself, on angles from 0 upwards it is 1. The rotation
  is the linear interpolation between 13 degrees (ratio 0) and -48 degrees (ratio 1), in
  radians. For the shoulder at (0.3, 0.4) and the elbow at (0.3, 0.6) the ratio is 0 and
  the rotation 13 degrees. In the scenario, fed the same frame \<open>n\<close> times: when the driven
  key has no smoothing entry yet, the first update stores the target (0, 13 degrees, 0)
  and every later update keeps it; when the key has an entry \<open>s\<close>, each update applies the
  filter step on every axis, so after \<open>n\<close> updates the Y value is the \<open>n\<close>-fold step from
  the Y of \<open>s\<close> and its distance to 13 degrees is \<open>\<bar>1 - SMOOTH\<bar> ^ n\<close> times the distance
  at the start. With the factor 0.35 the value is within 1 degree of the target after 5
  updates exactly when 0.65^5 times the starting distance is below 1 degree (a start
  within about 8.6 degrees).
\<close>

theorem arms_down_ratio_rotation_and_convergence:
  "calcArmRatio s e = max 0 (min 1 ((calcVerticalAngle s e + pi / 2) / (pi / 2)))
   \<and> calcVerticalAngle s e = atan2 (- (lm_y e - lm_y s)) \<bar>lm_x e - lm_x s\<bar>
   \<and> - (pi / 2) \<le> calcVerticalAngle s e
   \<and> (calcVerticalAngle s e \<le> 0 \<longrightarrow>
         calcArmRatio s e = (calcVerticalAngle s e + pi / 2) / (pi / 2))
   \<and> (0 \<le> calcVerticalAngle s e \<longrightarrow> calcArmRatio s e = 1)
   \<and> 0 \<le> calcArmRatio s e \<and> calcArmRatio s e \<le> 1
   \<and> mapToYRotation r = ((1 - r) * 13 + r * (- 48)) * DEG2RAD
   \<and> (lm_x s = 3 / 10 \<and> lm_y s = 4 / 10 \<and> lm_x e = 3 / 10 \<and> lm_y e = 6 / 10 \<longrightarrow>
         calcArmRatio s e = 0 \<and> mapToYRotation (calcArmRatio s e) = 13 * DEG2RAD)
   \<and> (arms_down_scenario st ab dv pose mirrored
        \<and> smoothRotations st (if mirrored then ''upperarm_r'' else ''upperarm_l'') = None
        \<and> 1 \<le> n \<longrightarrow>
         smoothRotations (feed n (Some g) (Some (Results (Some pose))) mirrored dv st)
           (if mirrored then ''upperarm_r'' else ''upperarm_l'')
         = Some \<lparr> euler_x = 0, euler_y = 13 * DEG2RAD, euler_z = 0 \<rparr>)
   \<and> (arms_down_scenario st ab dv pose mirrored
        \<and> smoothRotations st (if mirrored then ''upperarm_r'' else ''upperarm_l'') = Some prev \<longrightarrow>
         smoothRotations (feed n (Some g) (Some (Results (Some pose))) mirrored dv st)
           (if mirrored then ''upperarm_r'' else ''upperarm_l'')
         = Some \<lparr> euler_x = (smoothAxis (smoothingFactor dv) 0 ^^ n) (euler_x prev),
                  euler_y = (smoothAxis (smoothingFactor dv) (13 * DEG2RAD) ^^ n) (euler_y prev),
                  euler_z = (smoothAxis (smoothingFactor dv) 0 ^^ n) (euler_z prev) \<rparr>)
   \<and> \<bar>(smoothAxis (smoothingFactor dv) (13 * DEG2RAD) ^^ n) y - 13 * DEG2RAD\<bar>
        = \<bar>1 - smoothingFactor dv\<bar> ^ n * \<bar>y - 13 * DEG2RAD\<bar>
   \<and> (\<bar>(smoothAxis (35 / 100) (13 * DEG2RAD) ^^ 5) y - 13 * DEG2RAD\<bar> < 1 * DEG2RAD
        \<longleftrightarrow> (65 / 100) ^ 5 * \<bar>y - 13 * DEG2RAD\<bar> < 1 * DEG2RAD)"
proof -
  have angle: "calcVerticalAngle s e = atan2 (- (lm_y e - lm_y s)) \<bar>lm_x e - lm_x s\<bar>"
    by (simp add: calcVerticalAngle_def Let_def)
  have example: "calcArmRatio s e = 0 \<and> mapToYRotation (calcArmRatio s e) = 13 * DEG2RAD"
    if "lm_x s = 3 / 10 \<and> lm_y s = 4 / 10 \<and> lm_x e = 3 / 10 \<and> lm_y e = 6 / 10"
  proof -
    from that have "calcArmRatio s e = 0" by (intro calcArmRatio_straight_down) simp_all
    then show ?thesis by (simp add: mapToYRotation_0)
  qed
  have five: "\<bar>(smoothAxis (35 / 100) (13 * DEG2RAD) ^^ 5) y - 13 * DEG2RAD\<bar> < 1 * DEG2RAD
        \<longleftrightarrow> (65 / 100) ^ 5 * \<bar>y - 13 * DEG2RAD\<bar> < 1 * DEG2RAD"
    by (simp only: five_updates_at_035)
  show ?thesis
    using calcArmRatio_angle [of s e] angle calcVerticalAngle_range [of s e]
      calcArmRatio_linear [of s e] calcArmRatio_raised [of s e] calcArmRatio_range [of s e]
      mapToYRotation_lerp [of r] example
      arms_down_scenario_fresh [of st ab dv pose mirrored n g]
      arms_down_scenario_entry [of st ab dv pose mirrored prev n g]
      smoothAxis_iter_abs [where a = "smoothingFactor dv" and t = "13 * DEG2RAD" and n = n and s = y]
      five
    by blast
qed

lemma horizontal_angle: "calcVerticalAngle (mark (3 / 10) (4 / 10)) (mark (5 / 10) (4 / 10)) = 0"
  by (simp add: calcVerticalAngle_def mark_def atan2_def Let_def)

lemma arms_down_angle: "calcVerticalAngle (mark (3 / 10) (4 / 10)) (mark (3 / 10) (6 / 10)) = - (pi / 2)"
  by (simp add: calcVerticalAngle_def mark_def atan2_def Let_def)

lemma arms_down_pose_nth:
  "arms_down_pose ! LEFT_SHOULDER = mark (3 / 10) (4 / 10)"
  "arms_down_pose ! LEFT_ELBOW = mark (3 / 10) (6 / 10)"
  by (simp_all add: arms_down_pose_def LEFT_SHOULDER_def LEFT_ELBOW_def)

lemma one_arm_rig_posed_simps:
  "initializedRef one_arm_rig_posed"
  "armBonesRef one_arm_rig_posed = Some \<lparr> upperarm_l = [0], upperarm_r = [], lowerarm_l = [], lowerarm_r = [] \<rparr>"
  "smoothRotations one_arm_rig_posed ''upperarm_l'' = Some \<lparr> euler_x = 0, euler_y = 0, euler_z = 0 \<rparr>"
  by (simp_all add: one_arm_rig_posed_def frameEffect_calibrated_refs one_arm_rig_simps)
    (simp add: frameEffect_calibrated_def one_arm_rig_simps zero_sliders_manual_def defaultValues_def
      manualMode_def Let_def applyArmRotation_smooth applyArmRotation_frame smoothed_def)

lemma arms_down_scenario_examples:
  "arms_down_scenario one_arm_rig
     \<lparr> upperarm_l = [0], upperarm_r = [], lowerarm_l = [], lowerarm_r = [] \<rparr>
     defaultValues arms_down_pose False"
  "arms_down_scenario one_arm_rig_posed
     \<lparr> upperarm_l = [0], upperarm_r = [], lowerarm_l = [], lowerarm_r = [] \<rparr>
     defaultValues arms_down_pose False"
  by (simp_all add: arms_down_scenario_def one_arm_rig_simps one_arm_rig_posed_simps
      defaultValues_def arms_down_pose_length RIGHT_ELBOW_def arms_down_pose_nth mark_def)

theorem arms_down_ratio_rotation_and_convergence_witness:
  "calcVerticalAngle (mark (3 / 10) (4 / 10)) (mark (3 / 10) (6 / 10)) = - (pi / 2)
   \<and> calcArmRatio (mark (3 / 10) (4 / 10)) (mark (3 / 10) (6 / 10)) = 0
   \<and> mapToYRotation 0 = 13 * DEG2RAD
   \<and> calcVerticalAngle (mark (3 / 10) (4 / 10)) (mark (5 / 10) (4 / 10)) = 0
   \<and> calcArmRatio (mark (3 / 10) (4 / 10)) (mark (5 / 10) (4 / 10)) = 1
   \<and> mapToYRotation 1 = - 48 * DEG2RAD
   \<and> arms_down_scenario one_arm_rig
        \<lparr> upperarm_l = [0], upperarm_r = [], lowerarm_l = [], lowerarm_r = [] \<rparr>
        defaultValues arms_down_pose False
   \<and> smoothRotations one_arm_rig ''upperarm_l'' = None
   \<and> smoothRotations (feed 5 (Some one_arm_model) (Some (Results (Some arms_down_pose))) False
          defaultValues one_arm_rig) ''upperarm_l''
       = Some \<lparr> euler_x = 0, euler_y = 13 * DEG2RAD, euler_z = 0 \<rparr>
   \<and> arms_down_scenario one_arm_rig_posed
        \<lparr> upperarm_l = [0], upperarm_r = [], lowerarm_l = [], lowerarm_r = [] \<rparr>
        defaultValues arms_down_pose False
   \<and> smoothRotations one_arm_rig_posed ''upperarm_l'' = Some \<lparr> euler_x = 0, euler_y = 0, euler_z = 0 \<rparr>
   \<and> smoothRotations (feed 5 (Some one_arm_model) (Some (Results (Some arms_down_pose))) False
          defaultValues one_arm_rig_posed) ''upperarm_l''
       = Some \<lparr> euler_x = (smoothAxis (smoothingFactor defaultValues) 0 ^^ 5) 0,
                euler_y = (smoothAxis (smoothingFactor defaultValues) (13 * DEG2RAD) ^^ 5) 0,
                euler_z = (smoothAxis (smoothingFactor defaultValues) 0 ^^ 5) 0 \<rparr>"
proof -
  let ?ab = "\<lparr> upperarm_l = [0], upperarm_r = [], lowerarm_l = [], lowerarm_r = [] \<rparr>"
  let ?z = "\<lparr> euler_x = 0, euler_y = 0, euler_z = (0::real) \<rparr>"
  note sc = arms_down_scenario_examples
  have key: "smoothRotations one_arm_rig (if False then ''upperarm_r'' else ''upperarm_l'') = None"
    by (simp add: one_arm_rig_simps)
  have key': "smoothRotations one_arm_rig_posed (if False then ''upperarm_r'' else ''upperarm_l'') = Some ?z"
    by (simp add: one_arm_rig_posed_simps)
  have mk: "lm_x (mark (3 / 10) (4 / 10)) = 3 / 10" "lm_y (mark (3 / 10) (4 / 10)) = 4 / 10"
    "lm_x (mark (3 / 10) (6 / 10)) = 3 / 10" "lm_y (mark (3 / 10) (6 / 10)) = 6 / 10"
    by (simp_all add: mark_def)
  have five: "(1::nat) \<le> 5" by simp
  note down = arms_down_ratio_rotation_and_convergence
         [where s = "mark (3 / 10) (4 / 10)" and e = "mark (3 / 10) (6 / 10)" and r = 0
            and st = one_arm_rig and ab = ?ab and dv = defaultValues and pose = arms_down_pose
            and mirrored = False and n = 5 and g = one_arm_model]
  note posed = arms_down_ratio_rotation_and_convergence
         [where st = one_arm_rig_posed and ab = ?ab and dv = defaultValues and pose = arms_down_pose
            and mirrored = False and n = 5 and g = one_arm_model and prev = ?z]
  note level = arms_down_ratio_rotation_and_convergence
         [where s = "mark (3 / 10) (4 / 10)" and e = "mark (5 / 10) (4 / 10)" and r = 1]
  have d1: "calcArmRatio (mark (3 / 10) (4 / 10)) (mark (3 / 10) (6 / 10)) = 0"
    using down mk by blast
  have d2: "mapToYRotation 0 = ((1 - 0) * 13 + 0 * (- 48)) * DEG2RAD"
    using down by blast
  have d3: "smoothRotations (feed 5 (Some one_arm_model) (Some (Results (Some arms_down_pose))) False
          defaultValues one_arm_rig) (if False then ''upperarm_r'' else ''upperarm_l'')
       = Some \<lparr> euler_x = 0, euler_y = 13 * DEG2RAD, euler_z = 0 \<rparr>"
    using down sc(1) key five by blast
  have p3: "smoothRotations (feed 5 (Some one_arm_model) (Some (Results (Some arms_down_pose))) False
          defaultValues one_arm_rig_posed) (if False then ''upperarm_r'' else ''upperarm_l'')
       = Some \<lparr> euler_x = (smoothAxis (smoothingFactor defaultValues) 0 ^^ 5) (euler_x ?z),
                euler_y = (smoothAxis (smoothingFactor defaultValues) (13 * DEG2RAD) ^^ 5) (euler_y ?z),
                euler_z = (smoothAxis (smoothingFactor defaultValues) 0 ^^ 5) (euler_z ?z) \<rparr>"
    using posed sc(2) key' by blast
  have "0 \<le> calcVerticalAngle (mark (3 / 10) (4 / 10)) (mark (5 / 10) (4 / 10))"
    by (simp only: horizontal_angle)
  with level have l1: "calcArmRatio (mark (3 / 10) (4 / 10)) (mark (5 / 10) (4 / 10)) = 1"
    by blast
  have l2: "mapToYRotation 1 = ((1 - 1) * 13 + 1 * (- 48)) * DEG2RAD"
    using level by blast
  have d2': "mapToYRotation 0 = 13 * DEG2RAD" using d2 by simp
  have l2': "mapToYRotation 1 = - 48 * DEG2RAD" using l2 by simp
  have d3': "smoothRotations (feed 5 (Some one_arm_model) (Some (Results (Some arms_down_pose))) False
          defaultValues one_arm_rig) ''upperarm_l''
       = Some \<lparr> euler_x = 0, euler_y = 13 * DEG2RAD, euler_z = 0 \<rparr>"
    using d3 by (simp only: if_False)
  have p3': "smoothRotations (feed 5 (Some one_arm_model) (Some (Results (Some arms_down_pose))) False
          defaultValues one_arm_rig_posed) ''upperarm_l''
       = Some \<lparr> euler_x = (smoothAxis (smoothingFactor defaultValues) 0 ^^ 5) 0,
                euler_y = (smoothAxis (smoothingFactor defaultValues) (13 * DEG2RAD) ^^ 5) 0,
                euler_z = (smoothAxis (smoothingFactor defaultValues) 0 ^^ 5) 0 \<rparr>"
    using p3 by (simp only: if_False euler.simps)
  have k0: "smoothRotations one_arm_rig ''upperarm_l'' = None"
    and k1: "smoothRotations one_arm_rig_posed ''upperarm_l'' = Some ?z"
    by (simp_all add: one_arm_rig_simps one_arm_rig_posed_simps)
  show ?thesis
    using arms_down_angle horizontal_angle d1 d2' l1 l2' d3' p3' sc k0 k1 by blast
qed

text \<open>
  The one-arm rig after one manual update with every slider at zero is a state the hook
  reaches; its key \<open>upperarm_l\<close> has the entry (0, 0, 0). Fed the arms-down frame 5 times
  in tracking mode with the factor 0.35, the smoothed Y value is 13 degrees minus 0.65^5
  times 13 degrees: about 1.51 degrees away from the target, more than 1 degree.
\<close>

theorem five_updates_not_within_one_degree_counterexample:
  "arms_down_scenario one_arm_rig_posed
      \<lparr> upperarm_l = [0], upperarm_r = [], lowerarm_l = [], lowerarm_r = [] \<rparr>
      defaultValues arms_down_pose False
   \<and> smoothingFactor defaultValues = 35 / 100
   \<and> smoothRotations (feed 5 (Some one_arm_model) (Some (Results (Some arms_down_pose))) False
          defaultValues one_arm_rig_posed) ''upperarm_l''
       = Some \<lparr> euler_x = 0,
                euler_y = 13 * DEG2RAD - (65 / 100) ^ 5 * (13 * DEG2RAD),
                euler_z = 0 \<rparr>
   \<and> 1 * DEG2RAD < \<bar>(13 * DEG2RAD - (65 / 100) ^ 5 * (13 * DEG2RAD)) - 13 * DEG2RAD\<bar>"
proof -
  let ?ab = "\<lparr> upperarm_l = [0], upperarm_r = [], lowerarm_l = [], lowerarm_r = [] \<rparr>"
  let ?z = "\<lparr> euler_x = 0, euler_y = 0, euler_z = (0::real) \<rparr>"
  have a: "smoothingFactor defaultValues = 35 / 100" by (simp add: defaultValues_def)
  have key: "smoothRotations one_arm_rig_posed (if False then ''upperarm_r'' else ''upperarm_l'') = Some ?z"
    by (simp add: one_arm_rig_posed_simps)
  have x: "(smoothAxis (35 / 100) 0 ^^ 5) 0 = 0" by (rule smoothAxis_iter_fixed)
  have y: "(smoothAxis (35 / 100) (13 * DEG2RAD) ^^ 5) 0 = 13 * DEG2RAD - (65 / 100) ^ 5 * (13 * DEG2RAD)"
    by (simp add: smoothAxis_iter_closed)
  have e: "smoothRotations (feed 5 (Some one_arm_model) (Some (Results (Some arms_down_pose))) False
          defaultValues one_arm_rig_posed) ''upperarm_l''
       = Some \<lparr> euler_x = 0,
                euler_y = 13 * DEG2RAD - (65 / 100) ^ 5 * (13 * DEG2RAD),
                euler_z = 0 \<rparr>"
    using arms_down_scenario_entry [OF arms_down_scenario_examples(2) key, of 5 one_arm_model]
    by (simp only: if_False euler.simps a x y)
  have "(1::real) < (65 / 100) ^ 5 * 13" by (simp add: power_divide)
  then have "1 * DEG2RAD < (65 / 100) ^ 5 * 13 * DEG2RAD"
    by (intro mult_strict_right_mono) (simp_all add: DEG2RAD_def)
  moreover have "\<bar>(13 * DEG2RAD - (65 / 100) ^ 5 * (13 * DEG2RAD)) - 13 * DEG2RAD\<bar>
      = (65 / 100) ^ 5 * 13 * DEG2RAD"
    by (simp add: DEG2RAD_def abs_mult)
  ultimately have d: "1 * DEG2RAD < \<bar>(13 * DEG2RAD - (65 / 100) ^ 5 * (13 * DEG2RAD)) - 13 * DEG2RAD\<bar>"
    by (simp only:)
  show ?thesis
    using arms_down_scenario_examples(2) a e d by blast
qed

section \<open>Rotations from direction pairs\<close>

lemma vec_sel [simp]: "vec_x (vec a b c) = a" "vec_y (vec a b c) = b" "vec_z (vec a b c) = c"
  by (simp_all add: vec_def)

lemma lengthSq_nonneg: "0 \<le> lengthSq v"
  by (simp add: lengthSq_def)

lemma lengthSq_zero_iff: "lengthSq v = 0 \<longleftrightarrow> vec_x v = 0 \<and> vec_y v = 0 \<and> vec_z v = 0"
proof
  assume z: "lengthSq v = 0"
  have "0 \<le> vec_x v * vec_x v" "0 \<le> vec_y v * vec_y v" "0 \<le> vec_z v * vec_z v" by simp_all
  with z have "vec_x v * vec_x v = 0" "vec_y v * vec_y v = 0" "vec_z v * vec_z v = 0"
    unfolding lengthSq_def by linarith+
  then show "vec_x v = 0 \<and> vec_y v = 0 \<and> vec_z v = 0" by simp
next
  assume "vec_x v = 0 \<and> vec_y v = 0 \<and> vec_z v = 0"
  then show "lengthSq v = 0" by (simp add: lengthSq_def)
qed

lemma normalize_zero: "lengthSq v = 0 \<Longrightarrow> normalize v = vec 0 0 0"
  by (simp add: normalize_def vec_length_def lengthSq_zero_iff Let_def)

lemma normalize_unit:
  assumes "lengthSq v \<noteq> 0"
  shows "lengthSq (normalize v) = 1"
proof -
  define l where "l = sqrt (lengthSq v)"
  have pos: "0 < lengthSq v" using assms lengthSq_nonneg [of v] by simp
  then have l: "l \<noteq> 0" "l * l = lengthSq v" by (simp_all add: l_def)
  have "normalize v = vec (vec_x v / l) (vec_y v / l) (vec_z v / l)"
    using l by (simp add: normalize_def vec_length_def Let_def l_def)
  then have "lengthSq (normalize v)
      = (vec_x v * vec_x v + vec_y v * vec_y v + vec_z v * vec_z v) / (l * l)"
    by (simp add: lengthSq_def add_divide_distrib)
  also have "\<dots> = lengthSq v / lengthSq v" by (simp only: l lengthSq_def)
  also have "\<dots> = 1" using assms by simp
  finally show ?thesis .
qed

lemma lagrange: "lengthSq (crossVectors a b) = lengthSq a * lengthSq b - dot a b * dot a b"
  by (simp add: lengthSq_def crossVectors_def dot_def algebra_simps)

lemma dot_zero: "dot (vec 0 0 0) b = 0" "dot a (vec 0 0 0) = 0"
  by (simp_all add: dot_def)

lemma cross_zero: "crossVectors (vec 0 0 0) b = vec 0 0 0" "crossVectors a (vec 0 0 0) = vec 0 0 0"
  by (simp_all add: crossVectors_def)

lemma lengthSq_vec0: "lengthSq (vec 0 0 0) = 0"
  by (simp add: lengthSq_def)

lemma setFromAxisAngle_unit:
  assumes "lengthSq axis = 1"
  shows "quat_lengthSq (setFromAxisAngle axis angle) = 1"
proof -
  let ?s = "sin (angle / 2)" and ?c = "cos (angle / 2)"
  have "quat_lengthSq (setFromAxisAngle axis angle) = lengthSq axis * (?s * ?s) + ?c * ?c"
    by (simp add: quat_lengthSq_def setFromAxisAngle_def lengthSq_def Let_def algebra_simps)
  also have "\<dots> = ?s * ?s + ?c * ?c" by (simp add: assms)
  also have "\<dots> = 1" using sin_cos_squared_add [of "angle / 2"] by (simp add: power2_eq_square)
  finally show ?thesis .
qed

lemma identity_unit: "quat_lengthSq identity_quaternion = 1"
  by (simp add: quat_lengthSq_def identity_quaternion_def)

lemma setFromAxisAngle_zero_axis:
  "setFromAxisAngle (vec 0 0 0) (pi / 2) = \<lparr> quat_x = 0, quat_y = 0, quat_z = 0, quat_w = sqrt 2 / 2 \<rparr>"
  by (simp add: setFromAxisAngle_def Let_def cos_45)

text \<open>
  For non-zero inputs every branch returns a quaternion of norm 1 in the model's real
  arithmetic. (In doubles \<^verbatim>\<open>normalize()\<close> does not produce a unit vector when the squared
  length overflows or underflows; the lemmas below say nothing about such inputs.)
\<close>

lemma general_axis_unit:
  assumes f: "lengthSq f = 1" and t: "lengthSq t = 1"
    and d: "\<not> dot f t > 9999 / 10000" "\<not> dot f t < - (9999 / 10000)"
  shows "lengthSq (normalize (crossVectors f t)) = 1"
proof -
  have "\<bar>dot f t\<bar> \<le> 9999 / 10000" using d by simp
  then have "\<bar>dot f t\<bar> * \<bar>dot f t\<bar> \<le> (9999 / 10000) * (9999 / 10000)"
    by (intro mult_mono) simp_all
  then have "dot f t * dot f t < 1" by (simp add: abs_mult_self_eq)
  then have "lengthSq (crossVectors f t) \<noteq> 0" by (simp add: lagrange f t)
  then show ?thesis by (rule normalize_unit)
qed

lemma flip_axis_unit_from_directions:
  assumes f: "lengthSq f = 1"
  shows "lengthSq (normalize (crossVectors f (if \<bar>vec_x f\<bar> < 9 / 10 then vec 1 0 0 else vec 0 1 0))) = 1"
proof (cases "\<bar>vec_x f\<bar> < 9 / 10")
  case True
  then have "\<bar>vec_x f\<bar> * \<bar>vec_x f\<bar> < (9 / 10) * (9 / 10)"
    by (intro mult_strict_mono') simp_all
  then have "vec_x f * vec_x f < 1" by (simp add: abs_mult_self_eq)
  moreover have "lengthSq (crossVectors f (vec 1 0 0)) = lengthSq f - vec_x f * vec_x f"
    by (simp add: lengthSq_def crossVectors_def)
  ultimately have "lengthSq (crossVectors f (vec 1 0 0)) \<noteq> 0"
    using f by simp
  with True show ?thesis by (simp add: normalize_unit)
next
  case False
  then have "9 / 10 \<le> \<bar>vec_x f\<bar>" by simp
  then have "(9 / 10) * (9 / 10) \<le> \<bar>vec_x f\<bar> * \<bar>vec_x f\<bar>"
    by (intro mult_mono) simp_all
  then have "0 < vec_x f * vec_x f" by (simp add: abs_mult_self_eq)
  moreover have "0 \<le> vec_z f * vec_z f" by simp
  moreover have "lengthSq (crossVectors f (vec 0 1 0)) = vec_x f * vec_x f + vec_z f * vec_z f"
    by (simp add: lengthSq_def crossVectors_def)
  ultimately have "lengthSq (crossVectors f (vec 0 1 0)) \<noteq> 0"
    by linarith
  with False show ?thesis by (simp add: normalize_unit)
qed

lemma flip_axis_unit_between_vectors:
  assumes f: "lengthSq f = 1"
  shows "lengthSq (normalize
           (if lengthSq (crossVectors (vec 1 0 0) f) < 1 / 1000
            then crossVectors (vec 0 1 0) f else crossVectors (vec 1 0 0) f)) = 1"
proof (cases "lengthSq (crossVectors (vec 1 0 0) f) < 1 / 1000")
  case True
  have a: "lengthSq (crossVectors (vec 1 0 0) f) = vec_y f * vec_y f + vec_z f * vec_z f"
    by (simp add: lengthSq_def crossVectors_def)
  have b: "lengthSq (crossVectors (vec 0 1 0) f) = lengthSq f - vec_y f * vec_y f"
    by (simp add: lengthSq_def crossVectors_def)
  have "0 \<le> vec_z f * vec_z f" by simp
  with True a have "vec_y f * vec_y f < 1 / 1000" by linarith
  with b f have "lengthSq (crossVectors (vec 0 1 0) f) \<noteq> 0" by simp
  with True show ?thesis by (simp add: normalize_unit)
next
  case False
  then have "lengthSq (crossVectors (vec 1 0 0) f) \<noteq> 0" by simp
  with False show ?thesis by (simp add: normalize_unit)
qed

lemma quaternionFromDirections_unit:
  assumes "lengthSq u \<noteq> 0" and "lengthSq v \<noteq> 0"
  shows "quat_lengthSq (quaternionFromDirections u v) = 1"
proof -
  have f: "lengthSq (normalize u) = 1" and t: "lengthSq (normalize v) = 1"
    using assms by (simp_all add: normalize_unit)
  show ?thesis
    unfolding quaternionFromDirections_def Let_def
    using general_axis_unit [OF f t] flip_axis_unit_from_directions [OF f]
    by (simp add: identity_unit setFromAxisAngle_unit)
qed

lemma getRotationBetweenVectors_unit:
  assumes "lengthSq u \<noteq> 0" and "lengthSq v \<noteq> 0"
  shows "quat_lengthSq (getRotationBetweenVectors u v) = 1"
proof -
  have f: "lengthSq (normalize u) = 1" and t: "lengthSq (normalize v) = 1"
    using assms by (simp_all add: normalize_unit)
  show ?thesis
    unfolding getRotationBetweenVectors_def Let_def
    using general_axis_unit [OF f t] flip_axis_unit_between_vectors [OF f]
    by (simp add: identity_unit setFromAxisAngle_unit)
qed

lemma degenerate_direction:
  assumes "lengthSq u = 0 \<or> lengthSq v = 0"
  shows "dot (normalize u) (normalize v) = 0"
    and "normalize (crossVectors (normalize u) (normalize v)) = vec 0 0 0"
  using assms by (auto simp add: normalize_zero dot_zero cross_zero lengthSq_vec0)

lemma quaternionFromDirections_degenerate:
  assumes "lengthSq u = 0 \<or> lengthSq v = 0"
  shows "quaternionFromDirections u v = \<lparr> quat_x = 0, quat_y = 0, quat_z = 0, quat_w = sqrt 2 / 2 \<rparr>"
  unfolding quaternionFromDirections_def Let_def degenerate_direction [OF assms]
  by (simp add: setFromAxisAngle_zero_axis)

lemma getRotationBetweenVectors_degenerate:
  assumes "lengthSq u = 0 \<or> lengthSq v = 0"
  shows "getRotationBetweenVectors u v = \<lparr> quat_x = 0, quat_y = 0, quat_z = 0, quat_w = sqrt 2 / 2 \<rparr>"
  unfolding getRotationBetweenVectors_def Let_def degenerate_direction [OF assms]
  by (simp add: setFromAxisAngle_zero_axis)

lemma parallel_identity:
  assumes "9999 / 10000 < dot (normalize u) (normalize v)"
  shows "quaternionFromDirections u v = identity_quaternion"
    and "getRotationBetweenVectors u v = identity_quaternion"
  using assms by (simp_all add: quaternionFromDirections_def getRotationBetweenVectors_def Let_def)

text \<open>
  C2. The specification asks for the identity rotation when an input vector has length zero
  (coincident landmarks). The code has no such case: with the first vector (0, 0, 0) and
  the second (0, 1, 0), \<^verbatim>\<open>normalize()\<close> leaves the zero vector as it is, the dot product
  is 0, neither threshold test fires, and the general branch calls
  \<^verbatim>\<open>setFromAxisAngle\<close> with the zero axis and the angle \<open>arccos 0\<close>. Both functions
  return (0, 0, 0, sqrt 2 / 2): not the identity quaternion (0, 0, 0, 1), and with squared
  norm 1/2 not a rotation quaternion at all, unlike what every other branch returns. The
  computation involves only zeros and \<open>cos (pi / 4)\<close>, so doubles give the same result up
  to the rounding of that one value.
\<close>

theorem zero_length_direction_not_identity:
  "lengthSq (vec 0 0 0) = 0
   \<and> quaternionFromDirections (vec 0 0 0) (vec 0 1 0)
       = \<lparr> quat_x = 0, quat_y = 0, quat_z = 0, quat_w = sqrt 2 / 2 \<rparr>
   \<and> getRotationBetweenVectors (vec 0 0 0) (vec 0 1 0)
       = \<lparr> quat_x = 0, quat_y = 0, quat_z = 0, quat_w = sqrt 2 / 2 \<rparr>
   \<and> quaternionFromDirections (vec 0 0 0) (vec 0 1 0) \<noteq> identity_quaternion
   \<and> getRotationBetweenVectors (vec 0 0 0) (vec 0 1 0) \<noteq> identity_quaternion
   \<and> quat_lengthSq (quaternionFromDirections (vec 0 0 0) (vec 0 1 0)) = 1 / 2
   \<and> quat_lengthSq (getRotationBetweenVectors (vec 0 0 0) (vec 0 1 0)) = 1 / 2"
proof -
  have z: "lengthSq (vec 0 0 0) = 0 \<or> lengthSq (vec 0 1 0) = 0"
    by (simp add: lengthSq_vec0)
  have w: "sqrt 2 / 2 \<noteq> (1::real)"
  proof
    assume "sqrt 2 / 2 = (1::real)"
    then have "sqrt 2 = 2" by simp
    then have "sqrt 2 * sqrt 2 = 2 * 2" by simp
    then show False by simp
  qed
  have h: "(sqrt 2 / 2) * (sqrt 2 / 2) = (1 / 2 :: real)" by simp
  show ?thesis
    using w h
    by (simp add: quaternionFromDirections_degenerate [OF z] getRotationBetweenVectors_degenerate [OF z]
        lengthSq_vec0 identity_quaternion_def quat_lengthSq_def)
qed

section \<open>One update reaches the bones of every binding\<close>


























end
